theory Spec2Isabelle
  imports Main "HOL-Library.Multiset" "HOL-Library.Char_ord" "HOL-Library.List_Lexorder"
begin

section \<open>JavaScript values\<close>

text \<open>
  The notes client handles loosely shaped JSON data, so the model starts from the values
  themselves. A number is an integer (ids and epoch timestamps; fractions, NaN and the
  infinities are not represented as values), a string is its sequence of UTF-8 bytes,
  an object is the association list of its own properties in insertion order.
\<close>

datatype jsval =
    JUndefined
  | JNull
  | JBool bool
  | JNum int
  | JStr string
  | JArr "jsval list"
  | JObj "(string \<times> jsval) list"

text \<open>\<open>v == null\<close>: true of \<open>null\<close> and \<open>undefined\<close> only.\<close>

fun nullish :: "jsval \<Rightarrow> bool" where
  "nullish JUndefined = True"
| "nullish JNull = True"
| "nullish _ = False"

text \<open>ToBoolean: the falsy values are \<open>undefined\<close>, \<open>null\<close>, \<open>false\<close>, \<open>0\<close> and \<open>""\<close>.\<close>

fun truthy :: "jsval \<Rightarrow> bool" where
  "truthy JUndefined = False"
| "truthy JNull = False"
| "truthy (JBool b) = b"
| "truthy (JNum n) = (n \<noteq> 0)"
| "truthy (JStr s) = (s \<noteq> [])"
| "truthy (JArr _) = True"
| "truthy (JObj _) = True"

text \<open>The operators \<open>a ?? b\<close> and \<open>a || b\<close>.\<close>

definition coalesce :: "jsval \<Rightarrow> jsval \<Rightarrow> jsval" where
  "coalesce a b = (if nullish a then b else a)"

definition js_or :: "jsval \<Rightarrow> jsval \<Rightarrow> jsval" where
  "js_or a b = (if truthy a then a else b)"

text \<open>
  \<open>raw?.k\<close> for the property names the client reads (none of them is on a prototype):
  the own property of an object, \<open>undefined\<close> when it is missing and on every value
  that is not an object.
\<close>

fun getProp :: "jsval \<Rightarrow> string \<Rightarrow> jsval" where
  "getProp (JObj kvs) k = (case map_of kvs k of Some v \<Rightarrow> v | None \<Rightarrow> JUndefined)"
| "getProp _ k = JUndefined"

subsection \<open>\<open>String(v)\<close>\<close>

fun digit_char :: "nat \<Rightarrow> char" where
  "digit_char n = (''0123456789'' ! (n mod 10))"

fun dec :: "nat \<Rightarrow> string" where
  "dec n = (if n < 10 then [digit_char n] else dec (n div 10) @ [digit_char n])"

declare dec.simps [simp del]

definition showInt :: "int \<Rightarrow> string" where
  "showInt i = (if i < 0 then CHR ''-'' # dec (nat (- i)) else dec (nat i))"

fun joinWith :: "string \<Rightarrow> string list \<Rightarrow> string" where
  "joinWith sep [] = []"
| "joinWith sep [s] = s"
| "joinWith sep (s # t # ss) = s @ sep @ joinWith sep (t # ss)"

text \<open>
  ToString. A number prints in decimal: this is what JavaScript prints for the integers
  a double holds exactly, up to \<open>2^53\<close> in magnitude (beyond, it prints the digits of the
  nearest double, and from \<open>10^21\<close> on the exponent form, neither of which is
  modelled). An array
  joins its elements with commas, printing \<open>null\<close> and \<open>undefined\<close> elements as the empty
  string, and a plain object prints as \<open>[object Object]\<close>.
\<close>

fun jsString :: "jsval \<Rightarrow> string" where
  "jsString JUndefined = ''undefined''"
| "jsString JNull = ''null''"
| "jsString (JBool b) = (if b then ''true'' else ''false'')"
| "jsString (JNum n) = showInt n"
| "jsString (JStr s) = s"
| "jsString (JArr xs) = joinWith '','' (map (\<lambda>x. if nullish x then [] else jsString x) xs)"
| "jsString (JObj kvs) = ''[object Object]''"

subsection \<open>\<open>String.prototype.trim\<close>\<close>

text \<open>
  White space and line terminators of ECMAScript, as UTF-8: the six ASCII ones, U+00A0,
  U+1680, U+2000 to U+200A, U+2028, U+2029, U+202F, U+205F, U+3000 and U+FEFF.
\<close>

definition ws1 :: "char \<Rightarrow> bool" where
  "ws1 c \<longleftrightarrow> c \<in> set [CHR 0x09, CHR 0x0A, CHR 0x0B, CHR 0x0C, CHR 0x0D, CHR 0x20]"

definition ws2 :: "char \<Rightarrow> char \<Rightarrow> bool" where
  "ws2 a b \<longleftrightarrow> a = CHR 0xC2 \<and> b = CHR 0xA0"

definition ws3 :: "char \<Rightarrow> char \<Rightarrow> char \<Rightarrow> bool" where
  "ws3 a b c \<longleftrightarrow>
     (a = CHR 0xE1 \<and> b = CHR 0x9A \<and> c = CHR 0x80)
   \<or> (a = CHR 0xE2 \<and> b = CHR 0x80 \<and>
        ((0x80 \<le> (of_char c :: nat) \<and> (of_char c :: nat) \<le> 0x8A)
         \<or> c = CHR 0xA8 \<or> c = CHR 0xA9 \<or> c = CHR 0xAF))
   \<or> (a = CHR 0xE2 \<and> b = CHR 0x81 \<and> c = CHR 0x9F)
   \<or> (a = CHR 0xE3 \<and> b = CHR 0x80 \<and> c = CHR 0x80)
   \<or> (a = CHR 0xEF \<and> b = CHR 0xBB \<and> c = CHR 0xBF)"

text \<open>
  Dropping the white space at the front of a byte string; the two predicates say which
  two-byte and three-byte sequences are white space, so that the same function read
  on the reversed string drops it at the end.
\<close>

fun dropSpace :: "(char \<Rightarrow> char \<Rightarrow> bool) \<Rightarrow> (char \<Rightarrow> char \<Rightarrow> char \<Rightarrow> bool) \<Rightarrow> string \<Rightarrow> string" where
  "dropSpace p2 p3 (a # b # c # r) =
     (if ws1 a then dropSpace p2 p3 (b # c # r)
      else if p2 a b then dropSpace p2 p3 (c # r)
      else if p3 a b c then dropSpace p2 p3 r
      else a # b # c # r)"
| "dropSpace p2 p3 [a, b] =
     (if ws1 a then dropSpace p2 p3 [b] else if p2 a b then [] else [a, b])"
| "dropSpace p2 p3 [a] = (if ws1 a then [] else [a])"
| "dropSpace p2 p3 [] = []"

definition trimStart :: "string \<Rightarrow> string" where
  "trimStart s = dropSpace ws2 ws3 s"

definition trimEnd :: "string \<Rightarrow> string" where
  "trimEnd s = rev (dropSpace (\<lambda>b a. ws2 a b) (\<lambda>c b a. ws3 a b c) (rev s))"

definition trim :: "string \<Rightarrow> string" where
  "trim s = trimEnd (trimStart s)"

section \<open>Notes and their normalization\<close>

text \<open>
  \<open>normalizeNote\<close> always builds an object with the same five properties, so a note of
  the collection is a record of five values.
\<close>

record Note =
  id_n :: jsval
  title :: jsval
  content :: jsval
  createdAt :: jsval
  updatedAt :: jsval

definition normalizeNote :: "jsval \<Rightarrow> Note" where
  "normalizeNote raw =
     \<lparr> id_n = coalesce (getProp raw ''id'') (coalesce (getProp raw ''_id'')
                (coalesce (getProp raw ''noteId'') (getProp raw ''uuid''))),
       title = coalesce (getProp raw ''title'') (JStr ''''),
       content = coalesce (getProp raw ''content'') (JStr ''''),
       createdAt = coalesce (getProp raw ''createdAt'') (coalesce (getProp raw ''created_at'') JNull),
       updatedAt = coalesce (getProp raw ''updatedAt'') (coalesce (getProp raw ''updated_at'') JNull) \<rparr>"

text \<open>The object a note is, for passing it where a raw value is expected.\<close>

definition noteObj :: "Note \<Rightarrow> jsval" where
  "noteObj n = JObj [(''id'', id_n n), (''title'', title n), (''content'', content n),
                     (''createdAt'', createdAt n), (''updatedAt'', updatedAt n)]"

text \<open>The identifier aliases \<open>normalizeNote\<close> reads, in its order.\<close>

definition idAliases :: "string list" where
  "idAliases = [''id'', ''_id'', ''noteId'', ''uuid'']"

section \<open>The API client\<close>

text \<open>
  An error as the client throws and reads it: a message and, for a response that was
  not ok, the HTTP status.
\<close>

datatype js_error = JsError (message: string) (status: "int option")

text \<open>
  One call of \<open>request(path, options)\<close>: the HTTP method, the path, and the value whose
  JSON text is the body (none for GET and DELETE).
\<close>

record http_request =
  http_method :: string
  path :: string
  body :: "jsval option"

text \<open>
  What running one request comes to: it throws, or returns the decoded body. The four
  operations are written over any function \<open>req\<close> of this type; the client's own is
  \<open>request fetch\<close>, defined next.
\<close>

type_synonym fetcher = "http_request \<Rightarrow> js_error + jsval"

subsection \<open>\<open>request\<close> and \<open>parseJsonOrThrow\<close>\<close>

text \<open>\<open>haystack.includes(needle)\<close>\<close>

fun strIncludes :: "string \<Rightarrow> string \<Rightarrow> bool" where
  "strIncludes needle [] = (needle = [])"
| "strIncludes needle (c # cs) = (take (length needle) (c # cs) = needle \<or> strIncludes needle cs)"

text \<open>
  \<open>JSON.stringify\<close>, with \<open>None\<close> for the \<open>undefined\<close> it returns on \<open>undefined\<close>: a string is
  quoted with its control characters, quotes and backslashes escaped, a property whose
  value is \<open>undefined\<close> is left out of an object, and an \<open>undefined\<close> element of an array
  prints as \<open>null\<close>.
\<close>

definition hexLower :: "nat \<Rightarrow> char" where
  "hexLower n = ''0123456789abcdef'' ! (n mod 16)"

definition jsonEscape :: "char \<Rightarrow> string" where
  "jsonEscape c =
     (if c = CHR 0x22 then [CHR 0x5C, CHR 0x22]
      else if c = CHR 0x5C then [CHR 0x5C, CHR 0x5C]
      else if c = CHR 0x08 then [CHR 0x5C, CHR ''b'']
      else if c = CHR 0x0C then [CHR 0x5C, CHR ''f'']
      else if c = CHR 0x0A then [CHR 0x5C, CHR ''n'']
      else if c = CHR 0x0D then [CHR 0x5C, CHR ''r'']
      else if c = CHR 0x09 then [CHR 0x5C, CHR ''t'']
      else if (of_char c :: nat) < 0x20
        then [CHR 0x5C, CHR ''u'', CHR ''0'', CHR ''0'', hexLower ((of_char c :: nat) div 16), hexLower (of_char c)]
      else [c])"

definition jsonQuote :: "string \<Rightarrow> string" where
  "jsonQuote s = CHR 0x22 # concat (map jsonEscape s) @ [CHR 0x22]"

fun stringify :: "jsval \<Rightarrow> string option" where
  "stringify JUndefined = None"
| "stringify JNull = Some ''null''"
| "stringify (JBool b) = Some (if b then ''true'' else ''false'')"
| "stringify (JNum n) = Some (showInt n)"
| "stringify (JStr s) = Some (jsonQuote s)"
| "stringify (JArr xs) =
     Some (''['' @ joinWith '','' (map (\<lambda>x. case stringify x of None \<Rightarrow> ''null'' | Some t \<Rightarrow> t) xs) @ '']'')"
| "stringify (JObj kvs) =
     Some (''{'' @ joinWith '',''
             (concat (map (\<lambda>kv. case stringify (snd kv) of None \<Rightarrow> [] | Some t \<Rightarrow> [jsonQuote (fst kv) @ '':'' @ t]) kvs))
           @ ''}'')"

text \<open>
  What \<open>fetch\<close> resolves to: the status, the \<open>content-type\<close> header (\<open>None\<close> when the
  response has none), and what the body readers \<open>response.json()\<close> and
  \<open>response.text()\<close> settle to: the value or text, or the error they reject with
  (a body that does not parse as JSON, a body read that fails).
\<close>

record response =
  resp_status :: int
  resp_contentType :: "string option"
  resp_json :: "js_error + jsval"
  resp_text :: "js_error + string"

text \<open>\<open>response.ok\<close>: the status is in the range 200 to 299.\<close>

definition resp_ok :: "response \<Rightarrow> bool" where
  "resp_ok res \<longleftrightarrow> 200 \<le> resp_status res \<and> resp_status res \<le> 299"

text \<open>\<open>(response.headers.get("content-type") || "").includes("application/json")\<close>\<close>

definition isJson :: "response \<Rightarrow> bool" where
  "isJson res =
     strIncludes ''application/json'' (case resp_contentType res of None \<Rightarrow> [] | Some s \<Rightarrow> s)"

text \<open>
  A response that is not ok is thrown as an error with the status and, when a detail
  could be read from the body, the detail in the message; status 204 gives \<open>null\<close>; a
  JSON response gives what \<open>response.json()\<close> settles to, its rejection included; any
  other response is read as text and wrapped as \<open>{ raw: text }\<close>, or \<open>null\<close> when empty.
\<close>

definition parseJsonOrThrow :: "response \<Rightarrow> js_error + jsval" where
  "parseJsonOrThrow res =
     (if \<not> resp_ok res then
        (let detail =
               (if isJson res
                then (case resp_json res of
                        Inl e \<Rightarrow> []
                      | Inr v \<Rightarrow> (case stringify v of None \<Rightarrow> [] | Some s \<Rightarrow> s))
                else (case resp_text res of Inl e \<Rightarrow> [] | Inr t \<Rightarrow> t));
             msg = (if detail \<noteq> []
                    then ''Request failed ('' @ showInt (resp_status res) @ ''): '' @ detail
                    else ''Request failed ('' @ showInt (resp_status res) @ '')'')
         in Inl (JsError msg (Some (resp_status res))))
      else if resp_status res = 204 then Inr JNull
      else if isJson res then resp_json res
      else (case resp_text res of
              Inl e \<Rightarrow> Inl e
            | Inr t \<Rightarrow> Inr (if t \<noteq> [] then JObj [(''raw'', JStr t)] else JNull)))"

text \<open>
  \<open>request\<close>: the fetch, then \<open>parseJsonOrThrow\<close>. The fetch is the environment: a
  function of the method, path and body, which are all the client varies (the URL is
  the configured base followed by the path, the headers follow from the presence of a
  body); it rejects on a network failure and on the abort after the timeout.
\<close>

definition request :: "(http_request \<Rightarrow> js_error + response) \<Rightarrow> fetcher" where
  "request fetch r = (case fetch r of Inl e \<Rightarrow> Inl e | Inr res \<Rightarrow> parseJsonOrThrow res)"

subsection \<open>\<open>encodeURIComponent\<close>\<close>

definition uriUnreserved :: "char \<Rightarrow> bool" where
  "uriUnreserved c \<longleftrightarrow>
     c \<in> set ''ABCDEFGHIJKLMNOPQRSTUVWXYZabcdefghijklmnopqrstuvwxyz0123456789-_.!~*()''
     \<or> c = CHR 0x27"

definition hexDigit :: "nat \<Rightarrow> char" where
  "hexDigit n = ''0123456789ABCDEF'' ! (n mod 16)"

definition pctEncode :: "char \<Rightarrow> string" where
  "pctEncode c = [CHR ''%'', hexDigit ((of_char c :: nat) div 16), hexDigit ((of_char c :: nat) mod 16)]"

text \<open>
  Every byte of the UTF-8 form of the string is kept when it is unreserved and
  escaped as \<open>%XX\<close> otherwise. The argument is converted with ToString first. (A string
  with a lone surrogate has no UTF-8 form: for it the function throws, inside the \<open>try\<close>
  of the candidate loop, and no request is made.)
\<close>

definition encodeBytes :: "string \<Rightarrow> string" where
  "encodeBytes s = concat (map (\<lambda>c. if uriUnreserved c then [c] else pctEncode c) s)"

definition encodeURIComponent :: "jsval \<Rightarrow> string" where
  "encodeURIComponent v = encodeBytes (jsString v)"

subsection \<open>The candidate loop\<close>

text \<open>
  The four operations share one loop: for each base of the candidates, in order, build
  the request and run it; the first that returns ends the loop with its value, one
  that throws is remembered in \<open>lastErr\<close>, and after the last candidate the loop
  throws \<open>lastErr\<close> (\<open>None\<close> is the \<open>undefined\<close> it starts as). The second component
  is the list of the requests that were made, in order.
\<close>

definition NOTES_BASE_CANDIDATES :: "string list" where
  "NOTES_BASE_CANDIDATES = [''/notes'', ''/api/notes'']"

fun candidatesLoop ::
  "fetcher \<Rightarrow> (string \<Rightarrow> http_request) \<Rightarrow> string list \<Rightarrow> js_error option \<Rightarrow> http_request list
     \<Rightarrow> (js_error option + jsval) \<times> http_request list" where
  "candidatesLoop req mk [] lastErr sent = (Inl lastErr, sent)"
| "candidatesLoop req mk (base # bases) lastErr sent =
     (case req (mk base) of
        Inr data \<Rightarrow> (Inr data, sent @ [mk base])
      | Inl e \<Rightarrow> candidatesLoop req mk bases (Some e) (sent @ [mk base]))"

definition listRequest :: "string \<Rightarrow> http_request" where
  "listRequest base = \<lparr> http_method = ''GET'', path = base, body = None \<rparr>"

definition createRequest :: "jsval \<Rightarrow> string \<Rightarrow> http_request" where
  "createRequest n base = \<lparr> http_method = ''POST'', path = base, body = Some n \<rparr>"

definition updateRequest :: "jsval \<Rightarrow> jsval \<Rightarrow> string \<Rightarrow> http_request" where
  "updateRequest i n base =
     \<lparr> http_method = ''PUT'', path = base @ ''/'' @ encodeURIComponent i, body = Some n \<rparr>"

definition deleteRequest :: "jsval \<Rightarrow> string \<Rightarrow> http_request" where
  "deleteRequest i base =
     \<lparr> http_method = ''DELETE'', path = base @ ''/'' @ encodeURIComponent i, body = None \<rparr>"

text \<open>
  \<open>listNotes\<close> reads the decoded body inside the loop's \<open>try\<close>; none of these reads can
  throw, so they are applied to the value the loop returns.
\<close>

definition listNotes :: "fetcher \<Rightarrow> (js_error option + jsval list) \<times> http_request list" where
  "listNotes req =
     (case candidatesLoop req listRequest NOTES_BASE_CANDIDATES None [] of
        (Inl e, sent) \<Rightarrow> (Inl e, sent)
      | (Inr data, sent) \<Rightarrow>
          (case data of
             JArr xs \<Rightarrow> (Inr xs, sent)
           | _ \<Rightarrow>
               (if truthy data
                then (case getProp data ''notes'' of
                        JArr ys \<Rightarrow> (Inr ys, sent)
                      | _ \<Rightarrow> (Inr [], sent))
                else (Inr [], sent))))"

definition createNote :: "fetcher \<Rightarrow> jsval \<Rightarrow> (js_error option + jsval) \<times> http_request list" where
  "createNote req n = candidatesLoop req (createRequest n) NOTES_BASE_CANDIDATES None []"

definition updateNote :: "fetcher \<Rightarrow> jsval \<Rightarrow> jsval \<Rightarrow> (js_error option + jsval) \<times> http_request list" where
  "updateNote req i n = candidatesLoop req (updateRequest i n) NOTES_BASE_CANDIDATES None []"

definition deleteNote :: "fetcher \<Rightarrow> jsval \<Rightarrow> (js_error option + jsval) \<times> http_request list" where
  "deleteNote req i = candidatesLoop req (deleteRequest i) NOTES_BASE_CANDIDATES None []"

section \<open>The application state\<close>

text \<open>
  The state hooks of \<open>App\<close>. Selection and the editor fields hold whatever value was
  stored in them: an id or a title of a note is any value of the wire.
\<close>

record app_state =
  "notes" :: "Note list"
  selectedId :: jsval
  editorTitle :: jsval
  editorContent :: jsval
  isDirty :: bool
  isLoading :: bool
  isSaving :: bool
  isDeleting :: bool
  error :: string
  info :: string

text \<open>
  A handler is modelled as one step on the state it is called in: what it reads from
  its closure and what the functional updates receive as \<open>prev\<close> are the same state.
\<close>

definition selectedNote :: "app_state \<Rightarrow> Note option" where
  "selectedNote st = find (\<lambda>n. jsString (id_n n) = jsString (selectedId st)) (notes st)"

text \<open>\<open>e?.message || dflt\<close>, for the value a \<open>catch\<close> receives.\<close>

definition errMessage :: "js_error option \<Rightarrow> string \<Rightarrow> string" where
  "errMessage e dflt =
     (case e of None \<Rightarrow> dflt | Some er \<Rightarrow> (if message er = [] then dflt else message er))"

text \<open>\<open>normalized[0]?.id ?? null\<close>\<close>

definition firstId :: "Note list \<Rightarrow> jsval" where
  "firstId ns = (case ns of [] \<Rightarrow> JNull | n # _ \<Rightarrow> coalesce (id_n n) JNull)"

definition refreshNotes :: "fetcher \<Rightarrow> bool \<Rightarrow> app_state \<Rightarrow> app_state" where
  "refreshNotes req keepSelection st =
     (let st1 = st\<lparr>error := []\<rparr> in
      case fst (listNotes req) of
        Inl e \<Rightarrow> st1\<lparr>error := errMessage e ''Failed to load notes.''\<rparr>
      | Inr data \<Rightarrow>
          (let normalized = filter (\<lambda>n. \<not> nullish (id_n n)) (map normalizeNote data);
               st2 = st1\<lparr>notes := normalized\<rparr>
           in if \<not> keepSelection then st2\<lparr>selectedId := firstId normalized\<rparr>
              else if nullish (selectedId st) \<and> normalized \<noteq> []
                then st2\<lparr>selectedId := id_n (hd normalized)\<rparr>
              else if \<not> nullish (selectedId st)
                then (if list_ex (\<lambda>n. jsString (id_n n) = jsString (selectedId st)) normalized
                      then st2
                      else st2\<lparr>selectedId := firstId normalized\<rparr>)
              else st2))"

text \<open>The effect that runs when \<open>selectedNote\<close> has changed: the note is loaded into the editor.\<close>

definition selectionEffect :: "app_state \<Rightarrow> app_state" where
  "selectionEffect st =
     (let st1 = st\<lparr>info := [], error := []\<rparr> in
      case selectedNote st of
        None \<Rightarrow> st1\<lparr>editorTitle := JStr [], editorContent := JStr [], isDirty := False\<rparr>
      | Some sel \<Rightarrow>
          st1\<lparr>editorTitle := js_or (title sel) (JStr []),
               editorContent := js_or (content sel) (JStr []),
               isDirty := False\<rparr>)"

text \<open>\<open>ok\<close> is the answer \<open>window.confirm\<close> gives when it is asked.\<close>

definition onSelectNote :: "jsval \<Rightarrow> bool \<Rightarrow> app_state \<Rightarrow> app_state" where
  "onSelectNote i ok st =
     (if isDirty st \<and> \<not> nullish (selectedId st) \<and> jsString i \<noteq> jsString (selectedId st)
      then (if \<not> ok then st else st\<lparr>selectedId := i\<rparr>)
      else st\<lparr>selectedId := i\<rparr>)"

definition onNewNote :: "fetcher \<Rightarrow> bool \<Rightarrow> app_state \<Rightarrow> app_state" where
  "onNewNote req ok st =
     (let st1 = st\<lparr>error := [], info := []\<rparr> in
      if isDirty st \<and> \<not> nullish (selectedId st) \<and> \<not> ok then st1
      else
        (let st2 = st1\<lparr>isSaving := True\<rparr> in
         case fst (createNote req (JObj [(''title'', JStr ''Untitled''), (''content'', JStr [])])) of
           Inl e \<Rightarrow> st2\<lparr>error := errMessage e ''Failed to create note.'', isSaving := False\<rparr>
         | Inr created \<Rightarrow>
             (let normalized = normalizeNote (js_or created (JObj []));
                  st3 = (if nullish (id_n normalized) then refreshNotes req False st2
                         else st2\<lparr>notes := normalized # notes st2, selectedId := id_n normalized\<rparr>)
              in st3\<lparr>editorTitle := JStr ''Untitled'', editorContent := JStr [],
                      isDirty := True, info := ''New note created.'', isSaving := False\<rparr>)))"

text \<open>
  \<open>{ title: editorTitle.trim() || "Untitled", content: editorContent }\<close>. Only a string
  has a \<open>trim\<close> method; on any other value of the editor title the call throws a
  TypeError, inside the \<open>try\<close> of \<open>onSave\<close>.
\<close>

definition savePayload :: "app_state \<Rightarrow> js_error option + jsval" where
  "savePayload st =
     (case editorTitle st of
        JStr s \<Rightarrow>
          Inr (JObj [(''title'', js_or (JStr (trim s)) (JStr ''Untitled'')),
                     (''content'', editorContent st)])
      | _ \<Rightarrow> Inl (Some (JsError ''editorTitle.trim is not a function'' None)))"

text \<open>\<open>{ ...n, ...normalized }\<close>: every own property of the second note overwrites the first's.\<close>

definition spreadNote :: "Note \<Rightarrow> Note \<Rightarrow> Note" where
  "spreadNote n normalized =
     n\<lparr>id_n := id_n normalized, title := title normalized, content := content normalized,
       createdAt := createdAt normalized, updatedAt := updatedAt normalized\<rparr>"

definition onSave :: "fetcher \<Rightarrow> app_state \<Rightarrow> app_state" where
  "onSave req st =
     (case selectedNote st of
        None \<Rightarrow> st
      | Some sel \<Rightarrow>
          if \<not> truthy (id_n sel) then st
          else
            (let st1 = st\<lparr>error := [], info := [], isSaving := True\<rparr>;
                 failed = (\<lambda>e. st1\<lparr>error := errMessage e ''Failed to save note.'', isSaving := False\<rparr>)
             in case savePayload st of
                  Inl e \<Rightarrow> failed e
                | Inr payload \<Rightarrow>
                    (case fst (updateNote req (id_n sel) payload) of
                       Inl e \<Rightarrow> failed e
                     | Inr updated \<Rightarrow>
                         (let normalized = normalizeNote (js_or updated (JObj []));
                              st2 = (if nullish (id_n normalized) then refreshNotes req True st1
                                     else st1\<lparr>notes :=
                                            map (\<lambda>n. if jsString (id_n n) = jsString (id_n normalized)
                                                      then spreadNote n normalized else n)
                                              (notes st1)\<rparr>)
                          in st2\<lparr>isDirty := False, info := ''Saved.'', isSaving := False\<rparr>))))"

definition onDelete :: "fetcher \<Rightarrow> bool \<Rightarrow> app_state \<Rightarrow> app_state" where
  "onDelete req ok st =
     (case selectedNote st of
        None \<Rightarrow> st
      | Some sel \<Rightarrow>
          if \<not> truthy (id_n sel) then st
          else
            (let st1 = st\<lparr>error := [], info := []\<rparr> in
             if \<not> ok then st1
             else
               (let st2 = st1\<lparr>isDeleting := True\<rparr> in
                case fst (deleteNote req (id_n sel)) of
                  Inl e \<Rightarrow> st2\<lparr>error := errMessage e ''Failed to delete note.'', isDeleting := False\<rparr>
                | Inr _ \<Rightarrow>
                    (let prevSelected = selectedId st2;
                         remaining = filter (\<lambda>n. jsString (id_n n) \<noteq> jsString (id_n sel)) (notes st)
                     in st2\<lparr>notes := filter (\<lambda>n. jsString (id_n n) \<noteq> jsString (id_n sel)) (notes st2),
                            selectedId := (if jsString prevSelected \<noteq> jsString (id_n sel)
                                           then prevSelected else firstId remaining),
                            isDirty := False, info := ''Deleted.'', isDeleting := False\<rparr>))))"

definition onEditorTitleChange :: "string \<Rightarrow> app_state \<Rightarrow> app_state" where
  "onEditorTitleChange v st = st\<lparr>editorTitle := JStr v, isDirty := True\<rparr>"

definition onEditorContentChange :: "string \<Rightarrow> app_state \<Rightarrow> app_state" where
  "onEditorContentChange v st = st\<lparr>editorContent := JStr v, isDirty := True\<rparr>"

section \<open>The sorted view\<close>

text \<open>
  \<open>new Date(v).getTime()\<close>, with \<open>None\<close> for NaN (an invalid date). A string is parsed by
  the platform's \<open>Date.parse\<close>, a parameter of the model; an array or an object is
  converted to a string first; any other value is converted to a number. The time
  value is clipped to the range of dates.
\<close>

definition timeClip :: "int \<Rightarrow> int option" where
  "timeClip t = (if \<bar>t\<bar> \<le> 8640000000000000 then Some t else None)"

fun dateTime :: "(string \<Rightarrow> int option) \<Rightarrow> jsval \<Rightarrow> int option" where
  "dateTime parseDate JUndefined = None"
| "dateTime parseDate JNull = timeClip 0"
| "dateTime parseDate (JBool b) = timeClip (if b then 1 else 0)"
| "dateTime parseDate (JNum n) = timeClip n"
| "dateTime parseDate (JStr s) = Option.bind (parseDate s) timeClip"
| "dateTime parseDate (JArr xs) = Option.bind (parseDate (jsString (JArr xs))) timeClip"
| "dateTime parseDate (JObj kvs) = Option.bind (parseDate (jsString (JObj kvs))) timeClip"

text \<open>\<open>new Date(a.updatedAt || a.createdAt || 0).getTime()\<close>\<close>

definition noteTime :: "(string \<Rightarrow> int option) \<Rightarrow> Note \<Rightarrow> int option" where
  "noteTime parseDate a = dateTime parseDate (js_or (updatedAt a) (js_or (createdAt a) (JNum 0)))"

text \<open>\<open>String(a.title || "")\<close>\<close>

definition titleKey :: "Note \<Rightarrow> string" where
  "titleKey a = jsString (js_or (title a) (JStr []))"

text \<open>
  The comparator of \<open>sortedNotes\<close>; \<open>None\<close> is the NaN it returns when one of the two
  times is NaN (then \<open>bt !== at\<close> holds and \<open>bt - at\<close> is NaN). \<open>localeCompare\<close> is the
  platform's collation of two strings, the parameter \<open>collate\<close>.
\<close>

definition compareNotes ::
  "(string \<Rightarrow> int option) \<Rightarrow> (string \<Rightarrow> string \<Rightarrow> int) \<Rightarrow> Note \<Rightarrow> Note \<Rightarrow> int option" where
  "compareNotes parseDate collate a b =
     (case (noteTime parseDate a, noteTime parseDate b) of
        (Some at, Some bt) \<Rightarrow>
          (if bt \<noteq> at then Some (bt - at)
           else Some (collate (titleKey a) (titleKey b)))
      | _ \<Rightarrow> None)"

text \<open>
  \<open>Array.prototype.sort\<close> reads a NaN from the comparator as 0, and is a stable sort:
  with a comparator that is a consistent ordering of the elements the result is the one
  of the stable insertion sort below. (With an inconsistent comparator the standard
  leaves the order to the implementation.)
\<close>

definition sortCompare :: "('a \<Rightarrow> 'a \<Rightarrow> int option) \<Rightarrow> 'a \<Rightarrow> 'a \<Rightarrow> int" where
  "sortCompare cmp a b = (case cmp a b of None \<Rightarrow> 0 | Some v \<Rightarrow> v)"

fun insertBy :: "('a \<Rightarrow> 'a \<Rightarrow> int option) \<Rightarrow> 'a \<Rightarrow> 'a list \<Rightarrow> 'a list" where
  "insertBy cmp x [] = [x]"
| "insertBy cmp x (y # ys) =
     (if sortCompare cmp x y \<le> 0 then x # y # ys else y # insertBy cmp x ys)"

fun sortBy :: "('a \<Rightarrow> 'a \<Rightarrow> int option) \<Rightarrow> 'a list \<Rightarrow> 'a list" where
  "sortBy cmp [] = []"
| "sortBy cmp (x # xs) = insertBy cmp x (sortBy cmp xs)"

definition sortedNotes ::
  "(string \<Rightarrow> int option) \<Rightarrow> (string \<Rightarrow> string \<Rightarrow> int) \<Rightarrow> Note list \<Rightarrow> Note list" where
  "sortedNotes parseDate collate ns = sortBy (compareNotes parseDate collate) ns"

section \<open>Auxiliary definitions for the statements\<close>

text \<open>A raw record carries a value that is not null under one of the identifier aliases.\<close>

definition hasIdAlias :: "jsval \<Rightarrow> bool" where
  "hasIdAlias raw \<longleftrightarrow> (\<exists>k \<in> set idAliases. \<not> nullish (getProp raw k))"

text \<open>
  The result of \<open>listNotes\<close> in the words of the specification: the decoded body
  itself when it is a bare array, the \<open>notes\<close> field when the body is an object with a
  \<open>notes\<close> array, the empty list for any other shape.
\<close>

definition specListResult :: "jsval \<Rightarrow> jsval list" where
  "specListResult b =
     (case b of
        JArr xs \<Rightarrow> xs
      | JObj kvs \<Rightarrow> (case map_of kvs ''notes'' of Some (JArr ys) \<Rightarrow> ys | _ \<Rightarrow> [])
      | _ \<Rightarrow> [])"

text \<open>
  A request fails: the fetch rejects (network, timeout), the response is not ok, or
  the body of an ok response cannot be read.
\<close>

definition requestFails :: "(http_request \<Rightarrow> js_error + response) \<Rightarrow> http_request \<Rightarrow> bool" where
  "requestFails fetch r =
     (case fetch r of
        Inl e \<Rightarrow> True
      | Inr res \<Rightarrow>
          \<not> resp_ok res
          \<or> (resp_status res \<noteq> 204 \<and> (if isJson res then isl (resp_json res) else isl (resp_text res))))"

text \<open>Sample responses.\<close>

definition unparsable :: response where
  "unparsable = \<lparr> resp_status = 200, resp_contentType = Some ''application/json; charset=utf-8'',
                  resp_json = Inl (JsError ''Unexpected end of JSON input'' None),
                  resp_text = Inr [] \<rparr>"

definition jsonOk :: "jsval \<Rightarrow> response" where
  "jsonOk v = \<lparr> resp_status = 200, resp_contentType = Some ''application/json'',
                resp_json = Inr v, resp_text = Inr [] \<rparr>"

definition notFound :: response where
  "notFound = \<lparr> resp_status = 404, resp_contentType = Some ''text/plain'',
                 resp_json = Inl (JsError ''Unexpected token N in JSON'' None),
                 resp_text = Inr ''Not Found'' \<rparr>"

text \<open>The initial values of the state hooks.\<close>

definition initialState :: app_state where
  "initialState =
     \<lparr> notes = [], selectedId = JNull, editorTitle = JStr [], editorContent = JStr [],
       isDirty = False, isLoading = True, isSaving = False, isDeleting = False,
       error = [], info = [] \<rparr>"

text \<open>Two notes and a state in which the first is selected and its draft is dirty.\<close>

definition noteA :: Note where
  "noteA = \<lparr>id_n = JNum 1, title = JStr ''A'', content = JStr ''first'', createdAt = JNull,
             updatedAt = JStr ''2024-01-01''\<rparr>"

definition noteB :: Note where
  "noteB = \<lparr>id_n = JNum 2, title = JStr ''B'', content = JStr ''second'', createdAt = JNull,
             updatedAt = JStr ''2024-01-02''\<rparr>"

definition editingA :: app_state where
  "editingA =
     \<lparr> notes = [noteA, noteB], selectedId = JNum 1, editorTitle = JStr '' A2 '',
       editorContent = JStr ''draft'', isDirty = True, isLoading = False, isSaving = False,
       isDeleting = False, error = [], info = [] \<rparr>"

text \<open>
  The comparator places the first note not after the second, for a given reading of
  their times and a given collation.
\<close>

definition comparedBy :: "(Note \<Rightarrow> int option) \<Rightarrow> (string \<Rightarrow> string \<Rightarrow> int) \<Rightarrow> Note \<Rightarrow> Note \<Rightarrow> bool" where
  "comparedBy time collate a b =
     (case (time a, time b) of
        (Some at, Some bt) \<Rightarrow> bt < at \<or> (bt = at \<and> collate (titleKey a) (titleKey b) \<le> 0)
      | _ \<Rightarrow> False)"

text \<open>
  Modelled from the spec: \<open>String.prototype.localeCompare\<close> is the platform's collation,
  not code of the repository; the specification reads the tie-break as the ascending
  case-insensitive order of the titles. The strings are compared byte by byte after
  the letters A to Z are folded to lower case.
\<close>

definition foldCase :: "string \<Rightarrow> string" where
  "foldCase s =
     map (\<lambda>c. if 0x41 \<le> (of_char c :: nat) \<and> (of_char c :: nat) \<le> 0x5A
               then char_of ((of_char c :: nat) + 32) else c) s"

definition localeCompare :: "string \<Rightarrow> string \<Rightarrow> int" where
  "localeCompare s t =
     (if foldCase s < foldCase t then - 1 else if foldCase s = foldCase t then 0 else 1)"

text \<open>
  Two notes are in the order of the claim, for a given reading of their times: both
  times are valid and the first is later, or they are equal and the titles are in
  ascending case-insensitive order.
\<close>

definition orderedBy :: "(Note \<Rightarrow> int option) \<Rightarrow> Note \<Rightarrow> Note \<Rightarrow> bool" where
  "orderedBy time a b =
     (case (time a, time b) of
        (Some at, Some bt) \<Rightarrow>
          bt < at \<or> (bt = at \<and> foldCase (titleKey a) \<le> foldCase (titleKey b))
      | _ \<Rightarrow> False)"

text \<open>
  The effective timestamp as the specification words it, \<open>updatedAt ?? createdAt ?? 0\<close>:
  \<open>updatedAt\<close> if present, else \<open>createdAt\<close>, else epoch zero.
\<close>

definition specEffective :: "Note \<Rightarrow> jsval" where
  "specEffective a = coalesce (updatedAt a) (coalesce (createdAt a) (JNum 0))"

definition specTime :: "(string \<Rightarrow> int option) \<Rightarrow> Note \<Rightarrow> int option" where
  "specTime parseDate a = dateTime parseDate (specEffective a)"

text \<open>No timestamp of the note is present and falsy (0, the empty string or \<open>false\<close>).\<close>

definition stampsTruthyOrAbsent :: "Note \<Rightarrow> bool" where
  "stampsTruthyOrAbsent a \<longleftrightarrow>
     (nullish (updatedAt a) \<or> truthy (updatedAt a)) \<and> (nullish (createdAt a) \<or> truthy (createdAt a))"

text \<open>A sample \<open>Date.parse\<close>, which accepts no string.\<close>

definition noDates :: "string \<Rightarrow> int option" where
  "noDates s = None"

text \<open>Sample notes for the sorted view.\<close>

definition zeroUpdated :: Note where
  "zeroUpdated = normalizeNote (JObj [(''id'', JNum 1), (''title'', JStr ''a''),
                                      (''createdAt'', JNum 1000), (''updatedAt'', JNum 0)])"

definition laterUpdated :: Note where
  "laterUpdated = normalizeNote (JObj [(''id'', JNum 2), (''title'', JStr ''b''), (''updatedAt'', JNum 500)])"

definition undatedB :: Note where
  "undatedB = normalizeNote (JObj [(''id'', JNum 6), (''title'', JStr ''b''), (''updatedAt'', JStr ''n/a'')])"

definition undatedA :: Note where
  "undatedA = normalizeNote (JObj [(''id'', JNum 7), (''title'', JStr ''a''), (''updatedAt'', JStr ''n/a'')])"

definition noteC :: Note where
  "noteC = \<lparr>id_n = JNum 3, title = JStr ''B'', content = JStr ''third'', createdAt = JNum 900,
             updatedAt = JNull\<rparr>"

definition noteD :: Note where
  "noteD = \<lparr>id_n = JNum 4, title = JStr ''a'', content = JStr ''fourth'', createdAt = JNum 100,
             updatedAt = JNum 900\<rparr>"

definition noteE :: Note where
  "noteE = \<lparr>id_n = JNum 5, title = JStr ''C'', content = JStr ''fifth'', createdAt = JNull,
             updatedAt = JNum 2000\<rparr>"

section \<open>Properties\<close>

subsection \<open>Values and normalization\<close>

lemma nullish_iff: "nullish v \<longleftrightarrow> v = JUndefined \<or> v = JNull"
  by (cases v) simp_all

lemma nullish_coalesce: "nullish (coalesce a b) \<longleftrightarrow> nullish a \<and> nullish b"
  by (simp add: coalesce_def)

lemma coalesce_simps:
  "coalesce JUndefined b = b"
  "coalesce JNull b = b"
  "\<not> nullish a \<Longrightarrow> coalesce a b = a"
  by (simp_all add: coalesce_def)

lemma coalesce_JNull: "coalesce a JNull = (if a = JUndefined then JNull else a)"
  by (cases a) (simp_all add: coalesce_def)

lemma coalesce_not_undefined: "b \<noteq> JUndefined \<Longrightarrow> coalesce a b \<noteq> JUndefined"
  by (cases a) (simp_all add: coalesce_def)

lemma coalesce_not_nullish: "\<not> nullish b \<Longrightarrow> \<not> nullish (coalesce a b)"
  by (simp add: coalesce_def)

lemma normalizeNote_id_nullish:
  "nullish (id_n (normalizeNote raw)) \<longleftrightarrow> (\<forall>k \<in> set idAliases. nullish (getProp raw k))"
  by (simp add: normalizeNote_def idAliases_def nullish_coalesce)

lemma admitted_iff: "\<not> nullish (id_n (normalizeNote raw)) \<longleftrightarrow> hasIdAlias raw"
  by (simp add: hasIdAlias_def normalizeNote_id_nullish)

lemma getProp_noteObj:
  "getProp (noteObj n) ''id'' = id_n n"
  "getProp (noteObj n) ''_id'' = JUndefined"
  "getProp (noteObj n) ''noteId'' = JUndefined"
  "getProp (noteObj n) ''uuid'' = JUndefined"
  "getProp (noteObj n) ''title'' = title n"
  "getProp (noteObj n) ''content'' = content n"
  "getProp (noteObj n) ''createdAt'' = createdAt n"
  "getProp (noteObj n) ''created_at'' = JUndefined"
  "getProp (noteObj n) ''updatedAt'' = updatedAt n"
  "getProp (noteObj n) ''updated_at'' = JUndefined"
  by (simp_all add: noteObj_def)

text \<open>Normalizing the object of a note: the id aliases other than \<open>id\<close> are missing from it.\<close>

lemma normalizeNote_noteObj:
  "normalizeNote (noteObj n) =
     \<lparr> id_n = (if nullish (id_n n) then JUndefined else id_n n),
       title = coalesce (title n) (JStr []),
       content = coalesce (content n) (JStr []),
       createdAt = coalesce (createdAt n) JNull,
       updatedAt = coalesce (updatedAt n) JNull \<rparr>"
  unfolding normalizeNote_def getProp_noteObj coalesce_simps
  by (simp add: coalesce_def)

lemma normalizeNote_canonical:
  "\<not> nullish (title (normalizeNote r))"
  "\<not> nullish (content (normalizeNote r))"
  "createdAt (normalizeNote r) \<noteq> JUndefined"
  "updatedAt (normalizeNote r) \<noteq> JUndefined"
  by (simp_all add: normalizeNote_def coalesce_not_nullish coalesce_not_undefined)

lemma normalizeNote_noteObj_canonical:
  assumes "\<not> nullish (title n)" "\<not> nullish (content n)"
    and "createdAt n \<noteq> JUndefined" "updatedAt n \<noteq> JUndefined"
  shows "normalizeNote (noteObj n) = n\<lparr>id_n := (if nullish (id_n n) then JUndefined else id_n n)\<rparr>"
  using assms by (simp add: normalizeNote_noteObj coalesce_simps coalesce_JNull)

text \<open>
  C9, as the claim states it, fails: the record \<open>{ uuid: null }\<close> normalizes to a note
  whose id is \<open>null\<close> (the last alias of the \<open>??\<close> chain is returned as it is), and
  normalizing that note again gives the id \<open>undefined\<close>, since the chain then ends in the
  missing \<open>uuid\<close> of the note.
\<close>

theorem normalizeNote_not_idempotent:
  "normalizeNote (noteObj (normalizeNote (JObj [(''uuid'', JNull)])))
     \<noteq> normalizeNote (JObj [(''uuid'', JNull)])"
  by (simp add: normalizeNote_def noteObj_def coalesce_def)

text \<open>
  C9, amended: for every raw record whose normalized id is not the value \<open>null\<close> (every
  admitted note, and every note whose id is \<open>undefined\<close>), normalizing the normalized
  note gives the same note; when the normalized id is \<open>null\<close>, the second pass changes
  the id to \<open>undefined\<close> and nothing else.
\<close>

theorem normalizeNote_twice:
  "(id_n (normalizeNote r) \<noteq> JNull \<longrightarrow>
      normalizeNote (noteObj (normalizeNote r)) = normalizeNote r)
   \<and> (id_n (normalizeNote r) = JNull \<longrightarrow>
      normalizeNote (noteObj (normalizeNote r)) = (normalizeNote r)\<lparr>id_n := JUndefined\<rparr>)"
proof -
  let ?n = "normalizeNote r"
  have eq: "normalizeNote (noteObj ?n) = ?n\<lparr>id_n := (if nullish (id_n ?n) then JUndefined else id_n ?n)\<rparr>"
    by (rule normalizeNote_noteObj_canonical) (rule normalizeNote_canonical)+
  show ?thesis
    unfolding eq by (cases "id_n ?n") simp_all
qed

theorem normalizeNote_twice_witness:
  "id_n (normalizeNote (JObj [(''_id'', JNum 7), (''title'', JStr ''x'')])) \<noteq> JNull
   \<and> normalizeNote (noteObj (normalizeNote (JObj [(''_id'', JNum 7), (''title'', JStr ''x'')])))
       = \<lparr>id_n = JNum 7, title = JStr ''x'', content = JStr [], createdAt = JNull, updatedAt = JNull\<rparr>
   \<and> id_n (normalizeNote (JObj [(''uuid'', JNull)])) = JNull
   \<and> id_n (normalizeNote (noteObj (normalizeNote (JObj [(''uuid'', JNull)])))) = JUndefined"
proof -
  have a: "normalizeNote (JObj [(''_id'', JNum 7), (''title'', JStr ''x'')])
             = \<lparr>id_n = JNum 7, title = JStr ''x'', content = JStr [], createdAt = JNull, updatedAt = JNull\<rparr>"
    by (simp add: normalizeNote_def coalesce_def)
  have b: "id_n (normalizeNote (JObj [(''uuid'', JNull)])) = JNull"
    by (simp add: normalizeNote_def coalesce_def)
  show ?thesis
    using normalizeNote_twice [of "JObj [(''_id'', JNum 7), (''title'', JStr ''x'')]"]
      normalizeNote_twice [of "JObj [(''uuid'', JNull)]"] a b
    by simp
qed

subsection \<open>Load and refresh\<close>

lemma error_refreshNotes:
  "fst (listNotes req) = Inr data \<Longrightarrow> error (refreshNotes req keep st) = []"
  by (simp add: refreshNotes_def Let_def)

lemma notes_refreshNotes:
  "fst (listNotes req) = Inr data \<Longrightarrow>
     notes (refreshNotes req keep st) = filter (\<lambda>n. \<not> nullish (id_n n)) (map normalizeNote data)"
  by (simp add: refreshNotes_def Let_def)

text \<open>
  C2: a raw record is admitted (its normalized id is not null) exactly when it carries
  a value that is not null under one of the aliases \<open>id\<close>, \<open>_id\<close>, \<open>noteId\<close>, \<open>uuid\<close>;
  after a load or refresh whose list request succeeded, the collection is the
  normalized form of exactly those records of the response, in order, so every note of
  the collection has an id that is not null; the other records are dropped without an
  error message.
\<close>

theorem refresh_admits_exactly_identified:
  assumes "fst (listNotes req) = Inr data"
  shows "(\<forall>raw. \<not> nullish (id_n (normalizeNote raw)) \<longleftrightarrow> hasIdAlias raw)
       \<and> notes (refreshNotes req keep st) = map normalizeNote (filter hasIdAlias data)
       \<and> (\<forall>n \<in> set (notes (refreshNotes req keep st)). \<not> nullish (id_n n))
       \<and> error (refreshNotes req keep st) = []"
proof -
  have "filter (\<lambda>n. \<not> nullish (id_n n)) (map normalizeNote data) = map normalizeNote (filter hasIdAlias data)"
    by (simp add: filter_map comp_def admitted_iff)
  then show ?thesis
    using assms by (simp add: notes_refreshNotes error_refreshNotes admitted_iff)
qed

theorem refresh_admits_exactly_identified_witness:
  "fst (listNotes (\<lambda>r. Inr (JArr [JObj [(''_id'', JNum 7)], JObj [(''title'', JStr ''x'')], JObj [(''uuid'', JNull)]])))
     = Inr [JObj [(''_id'', JNum 7)], JObj [(''title'', JStr ''x'')], JObj [(''uuid'', JNull)]]
   \<and> notes (refreshNotes (\<lambda>r. Inr (JArr [JObj [(''_id'', JNum 7)], JObj [(''title'', JStr ''x'')], JObj [(''uuid'', JNull)]])) True initialState)
     = [\<lparr>id_n = JNum 7, title = JStr [], content = JStr [], createdAt = JNull, updatedAt = JNull\<rparr>]"
proof -
  let ?req = "\<lambda>r :: http_request. Inr (JArr [JObj [(''_id'', JNum 7)], JObj [(''title'', JStr ''x'')], JObj [(''uuid'', JNull)]]) :: js_error + jsval"
  have h: "fst (listNotes ?req) = Inr [JObj [(''_id'', JNum 7)], JObj [(''title'', JStr ''x'')], JObj [(''uuid'', JNull)]]"
    by (simp add: listNotes_def NOTES_BASE_CANDIDATES_def)
  show ?thesis
    using h refresh_admits_exactly_identified [OF h, of True initialState]
    by (simp add: hasIdAlias_def idAliases_def normalizeNote_def coalesce_def)
qed

subsection \<open>Selecting a note\<close>

text \<open>
  C8: in a state whose draft is dirty and where a note is selected, selecting an id
  whose string form differs from the selection's, with the confirmation answered no,
  returns the state as it was: selection, draft fields, dirty flag and everything else.
\<close>

theorem select_declined:
  "isDirty st \<Longrightarrow> \<not> nullish (selectedId st) \<Longrightarrow> jsString i \<noteq> jsString (selectedId st)
     \<Longrightarrow> onSelectNote i False st = st"
  by (simp add: onSelectNote_def)

text \<open>
  The scenario of the specification: the collection holds the note 1, it is selected,
  its content is edited, and the selection of the id 2 (of no note) is declined.
\<close>

theorem select_declined_witness:
  "isDirty (onEditorContentChange ''draft'' (selectionEffect (onSelectNote (JNum 1) True
      (initialState\<lparr>notes := [\<lparr>id_n = JNum 1, title = JStr ''A'', content = JStr [], createdAt = JNull, updatedAt = JStr ''2024-01-01''\<rparr>]\<rparr>))))
   \<and> onSelectNote (JNum 2) False (onEditorContentChange ''draft'' (selectionEffect (onSelectNote (JNum 1) True
      (initialState\<lparr>notes := [\<lparr>id_n = JNum 1, title = JStr ''A'', content = JStr [], createdAt = JNull, updatedAt = JStr ''2024-01-01''\<rparr>]\<rparr>))))
     = \<lparr> notes = [\<lparr>id_n = JNum 1, title = JStr ''A'', content = JStr [], createdAt = JNull, updatedAt = JStr ''2024-01-01''\<rparr>],
         selectedId = JNum 1, editorTitle = JStr ''A'', editorContent = JStr ''draft'',
         isDirty = True, isLoading = True, isSaving = False, isDeleting = False, error = [], info = [] \<rparr>"
proof -
  let ?st = "onEditorContentChange ''draft'' (selectionEffect (onSelectNote (JNum 1) True
      (initialState\<lparr>notes := [\<lparr>id_n = JNum 1, title = JStr ''A'', content = JStr [], createdAt = JNull, updatedAt = JStr ''2024-01-01''\<rparr>]\<rparr>)))"
  have st: "?st = \<lparr> notes = [\<lparr>id_n = JNum 1, title = JStr ''A'', content = JStr [], createdAt = JNull, updatedAt = JStr ''2024-01-01''\<rparr>],
         selectedId = JNum 1, editorTitle = JStr ''A'', editorContent = JStr ''draft'',
         isDirty = True, isLoading = True, isSaving = False, isDeleting = False, error = [], info = [] \<rparr>"
    by (simp add: onEditorContentChange_def selectionEffect_def onSelectNote_def initialState_def selectedNote_def js_or_def)
  have d: "isDirty ?st" and s: "\<not> nullish (selectedId ?st)" unfolding st by simp_all
  have ne: "jsString (JNum 2) \<noteq> jsString (selectedId ?st)"
    unfolding st by (simp add: showInt_def dec.simps)
  show ?thesis
    using d select_declined [OF d s ne] st by simp
qed

subsection \<open>The API client\<close>

text \<open>The loop over the two candidates, unrolled.\<close>

lemma loop_two:
  "candidatesLoop req mk [b1, b2] None [] =
     (case req (mk b1) of
        Inr d \<Rightarrow> (Inr d, [mk b1])
      | Inl e1 \<Rightarrow>
          (case req (mk b2) of
             Inr d \<Rightarrow> (Inr d, [mk b1, mk b2])
           | Inl e2 \<Rightarrow> (Inl (Some e2), [mk b1, mk b2])))"
  by (simp split: sum.splits)


lemma listNotes_body:
  "(case b of JArr xs \<Rightarrow> (Inr xs, sent)
     | _ \<Rightarrow> (if truthy b then (case getProp b ''notes'' of JArr ys \<Rightarrow> (Inr ys, sent) | _ \<Rightarrow> (Inr [], sent))
            else (Inr [], sent)))
   = (Inr (specListResult b) :: js_error option + jsval list, sent :: http_request list)"
  by (cases b) (auto simp: specListResult_def split: option.splits jsval.splits)

lemma listNotes_primary:
  "req (listRequest ''/notes'') = Inr b \<Longrightarrow>
     listNotes req = (Inr (specListResult b), [listRequest ''/notes''])"
  by (simp add: listNotes_def NOTES_BASE_CANDIDATES_def listNotes_body)

lemma listNotes_alternate:
  "req (listRequest ''/notes'') = Inl e \<Longrightarrow> req (listRequest ''/api/notes'') = Inr b \<Longrightarrow>
     listNotes req = (Inr (specListResult b), [listRequest ''/notes'', listRequest ''/api/notes''])"
  by (simp add: listNotes_def NOTES_BASE_CANDIDATES_def listNotes_body)

lemma listNotes_fails:
  "req (listRequest ''/notes'') = Inl e1 \<Longrightarrow> req (listRequest ''/api/notes'') = Inl e2 \<Longrightarrow>
     listNotes req = (Inl (Some e2), [listRequest ''/notes'', listRequest ''/api/notes''])"
  by (simp add: listNotes_def NOTES_BASE_CANDIDATES_def)

lemma request_fails_iff: "(\<exists>e. request fetch r = Inl e) \<longleftrightarrow> requestFails fetch r"
  by (cases "fetch r")
     (auto simp: request_def requestFails_def parseJsonOrThrow_def Let_def isl_def split: sum.splits)

lemma request_decoded:
  assumes "fetch r = Inr res" "resp_ok res"
  shows "request fetch r =
     (if resp_status res = 204 then Inr JNull
      else if isJson res then resp_json res
      else (case resp_text res of
              Inl e \<Rightarrow> Inl e
            | Inr t \<Rightarrow> Inr (if t \<noteq> [] then JObj [(''raw'', JStr t)] else JNull)))"
  using assms by (simp add: request_def parseJsonOrThrow_def)

lemma specListResult_nothing:
  "specListResult JNull = []" "specListResult (JObj [(''raw'', JStr t)]) = []"
  by (simp_all add: specListResult_def)

lemma jsonOk_facts:
  "resp_ok (jsonOk v)" "resp_status (jsonOk v) \<noteq> 204" "isJson (jsonOk v)" "resp_json (jsonOk v) = Inr v"
  by (simp_all add: jsonOk_def resp_ok_def isJson_def)

lemma notFound_fails: "fetch r = Inr notFound \<Longrightarrow> requestFails fetch r"
  by (simp add: requestFails_def notFound_def resp_ok_def)

text \<open>
  C6, as the claim states it, fails: a response with status 200 and a JSON content type
  whose body does not parse makes \<open>response.json()\<close> reject; \<open>request\<close> throws, and when
  both candidates answer so, \<open>listNotes\<close> throws although every request reached a
  response and every status was a success.
\<close>

theorem listNotes_throws_on_unparsable_success:
  "resp_ok unparsable
   \<and> request (\<lambda>r. Inr unparsable) (listRequest ''/notes'') = Inl (JsError ''Unexpected end of JSON input'' None)
   \<and> fst (listNotes (request (\<lambda>r. Inr unparsable))) = Inl (Some (JsError ''Unexpected end of JSON input'' None))"
proof -
  have j: "isJson unparsable"
    by (simp add: isJson_def unparsable_def)
  have ok: "resp_ok unparsable" by (simp add: resp_ok_def unparsable_def)
  have r: "request (\<lambda>r. Inr unparsable) q = Inl (JsError ''Unexpected end of JSON input'' None)" for q
    using j ok by (simp add: request_decoded) (simp add: unparsable_def)
  show ?thesis
    using ok r by (simp add: listNotes_fails)
qed

text \<open>
  C6, amended: when a candidate (the primary one, or the alternate after the primary
  failed) answers with a success status and its body is read, \<open>listNotes\<close> returns the
  array itself for a body that is a bare array, the \<open>notes\<close> array of an object that has
  one, and the empty list for every other body (status 204, a text body, an object
  without a \<open>notes\<close> array); it throws exactly when, for both candidates, the fetch
  failed, the status was not a success, or the body of the success response could not
  be read.
\<close>

theorem listNotes_decoded:
  "(fetch (listRequest ''/notes'') = Inr res \<and> resp_ok res \<and> resp_status res \<noteq> 204 \<and> isJson res
      \<and> resp_json res = Inr b
      \<longrightarrow> fst (listNotes (request fetch)) = Inr (specListResult b))
   \<and> (fetch (listRequest ''/notes'') = Inr res \<and> resp_ok res
        \<and> (resp_status res = 204 \<or> (\<not> isJson res \<and> resp_text res = Inr t))
      \<longrightarrow> fst (listNotes (request fetch)) = Inr [])
   \<and> (requestFails fetch (listRequest ''/notes'')
        \<and> fetch (listRequest ''/api/notes'') = Inr res \<and> resp_ok res \<and> resp_status res \<noteq> 204 \<and> isJson res
        \<and> resp_json res = Inr b
      \<longrightarrow> fst (listNotes (request fetch)) = Inr (specListResult b))
   \<and> (requestFails fetch (listRequest ''/notes'')
        \<and> fetch (listRequest ''/api/notes'') = Inr res \<and> resp_ok res
        \<and> (resp_status res = 204 \<or> (\<not> isJson res \<and> resp_text res = Inr t))
      \<longrightarrow> fst (listNotes (request fetch)) = Inr [])
   \<and> ((\<exists>err. fst (listNotes (request fetch)) = Inl err)
        \<longleftrightarrow> requestFails fetch (listRequest ''/notes'') \<and> requestFails fetch (listRequest ''/api/notes''))
   \<and> specListResult (JArr xs) = xs
   \<and> (map_of kvs ''notes'' = Some (JArr ys) \<longrightarrow> specListResult (JObj kvs) = ys)
   \<and> ((\<forall>zs. b \<noteq> JArr zs) \<and> (\<forall>kvs zs. b = JObj kvs \<longrightarrow> map_of kvs ''notes'' \<noteq> Some (JArr zs))
        \<longrightarrow> specListResult b = [])"
proof -
  let ?p = "listRequest ''/notes''" and ?a = "listRequest ''/api/notes''"
  have thrown: "(\<exists>err. fst (listNotes (request fetch)) = Inl err)
        \<longleftrightarrow> requestFails fetch ?p \<and> requestFails fetch ?a"
  proof (cases "request fetch ?p")
    case (Inr b1)
    then have "\<not> requestFails fetch ?p"
      using request_fails_iff [of fetch ?p] by simp
    with Inr show ?thesis by (simp add: listNotes_primary)
  next
    case (Inl e1)
    then have f1: "requestFails fetch ?p"
      using request_fails_iff [of fetch ?p] by simp
    show ?thesis
    proof (cases "request fetch ?a")
      case (Inr b2)
      then have "\<not> requestFails fetch ?a"
        using request_fails_iff [of fetch ?a] by simp
      with Inl Inr show ?thesis by (simp add: listNotes_alternate)
    next
      case Inl2: (Inl e2)
      then have "requestFails fetch ?a"
        using request_fails_iff [of fetch ?a] by simp
      with Inl Inl2 f1 show ?thesis by (simp add: listNotes_fails)
    qed
  qed
  have json: "request fetch r = Inr b"
    if "fetch r = Inr res" "resp_ok res" "resp_status res \<noteq> 204" "isJson res" "resp_json res = Inr b" for r
    using that by (simp add: request_decoded)
  have none: "\<exists>v. request fetch r = Inr v \<and> specListResult v = []"
    if "fetch r = Inr res" "resp_ok res" "resp_status res = 204 \<or> (\<not> isJson res \<and> resp_text res = Inr t)" for r
    using that by (auto simp: request_decoded specListResult_nothing)
  have first: "fst (listNotes (request fetch)) = Inr (specListResult v)" if "request fetch ?p = Inr v" for v
    using that by (simp add: listNotes_primary)
  have second: "fst (listNotes (request fetch)) = Inr (specListResult v)"
    if "requestFails fetch ?p" "request fetch ?a = Inr v" for v
  proof -
    from that(1) obtain e where "request fetch ?p = Inl e"
      using request_fails_iff [of fetch ?p] by blast
    with that(2) show ?thesis by (simp add: listNotes_alternate)
  qed
  have other: "(\<forall>zs. b \<noteq> JArr zs) \<and> (\<forall>kvs zs. b = JObj kvs \<longrightarrow> map_of kvs ''notes'' \<noteq> Some (JArr zs))
        \<longrightarrow> specListResult b = []"
    by (cases b) (auto simp: specListResult_def split: option.splits jsval.splits)
  have c1: "fetch ?p = Inr res \<and> resp_ok res \<and> resp_status res \<noteq> 204 \<and> isJson res \<and> resp_json res = Inr b
      \<longrightarrow> fst (listNotes (request fetch)) = Inr (specListResult b)"
    using json [of ?p] first by blast
  have c2: "fetch ?p = Inr res \<and> resp_ok res
        \<and> (resp_status res = 204 \<or> (\<not> isJson res \<and> resp_text res = Inr t))
      \<longrightarrow> fst (listNotes (request fetch)) = Inr []"
    using none [of ?p] first by metis
  have c3: "requestFails fetch ?p
        \<and> fetch ?a = Inr res \<and> resp_ok res \<and> resp_status res \<noteq> 204 \<and> isJson res \<and> resp_json res = Inr b
      \<longrightarrow> fst (listNotes (request fetch)) = Inr (specListResult b)"
    using json [of ?a] second by blast
  have c4: "requestFails fetch ?p
        \<and> fetch ?a = Inr res \<and> resp_ok res
        \<and> (resp_status res = 204 \<or> (\<not> isJson res \<and> resp_text res = Inr t))
      \<longrightarrow> fst (listNotes (request fetch)) = Inr []"
    using none [of ?a] second by metis
  have s1: "specListResult (JArr xs) = xs" by (simp add: specListResult_def)
  have s2: "map_of kvs ''notes'' = Some (JArr ys) \<longrightarrow> specListResult (JObj kvs) = ys"
    by (simp add: specListResult_def)
  from c1 c2 c3 c4 thrown s1 s2 other show ?thesis by blast
qed

text \<open>
  The three bodies of the specification, \<open>{ notes: [a, b] }\<close>, \<open>[a, b]\<close> and \<open>{}\<close>, and a
  primary candidate that answers 404 before the alternate returns an array.
\<close>

theorem listNotes_decoded_witness:
  "fst (listNotes (request (\<lambda>r. Inr (jsonOk (JObj [(''notes'', JArr [JStr ''a'', JStr ''b''])])))))
     = Inr [JStr ''a'', JStr ''b'']
   \<and> fst (listNotes (request (\<lambda>r. Inr (jsonOk (JArr [JStr ''a'', JStr ''b''])))))
     = Inr [JStr ''a'', JStr ''b'']
   \<and> fst (listNotes (request (\<lambda>r. Inr (jsonOk (JObj []))))) = Inr []
   \<and> fst (listNotes (request (\<lambda>r. if path r = ''/notes'' then Inr notFound
                                      else Inr (jsonOk (JArr [JStr ''a'']))))) = Inr [JStr ''a'']"
proof -
  let ?f = "\<lambda>r. if path r = ''/notes'' then Inr notFound else Inr (jsonOk (JArr [JStr ''a''])) :: js_error + response"
  have p: "?f (listRequest ''/notes'') = Inr notFound" and a: "?f (listRequest ''/api/notes'') = Inr (jsonOk (JArr [JStr ''a'']))"
    by (simp_all add: listRequest_def)
  have f: "requestFails ?f (listRequest ''/notes'')"
    using p by (rule notFound_fails)
  show ?thesis
    using
      listNotes_decoded [of "\<lambda>r. Inr (jsonOk (JObj [(''notes'', JArr [JStr ''a'', JStr ''b''])]))"
        "jsonOk (JObj [(''notes'', JArr [JStr ''a'', JStr ''b''])])"
        "JObj [(''notes'', JArr [JStr ''a'', JStr ''b''])]" "[]" "[]"
        "[(''notes'', JArr [JStr ''a'', JStr ''b''])]" "[JStr ''a'', JStr ''b'']"]
      listNotes_decoded [of "\<lambda>r. Inr (jsonOk (JArr [JStr ''a'', JStr ''b'']))"
        "jsonOk (JArr [JStr ''a'', JStr ''b''])" "JArr [JStr ''a'', JStr ''b'']" "[]"
        "[JStr ''a'', JStr ''b'']" "[]" "[]"]
      listNotes_decoded [of "\<lambda>r. Inr (jsonOk (JObj []))" "jsonOk (JObj [])" "JObj []" "[]" "[]" "[]" "[]"]
      listNotes_decoded [of ?f "jsonOk (JArr [JStr ''a''])" "JArr [JStr ''a'']" "[]" "[JStr ''a'']" "[]" "[]"]
      f a
    by (simp add: jsonOk_facts)
qed


lemma createRequest_distinct: "createRequest n ''/notes'' \<noteq> createRequest n ''/api/notes''"
  by (simp add: createRequest_def)

text \<open>
  C7: when the request of \<open>createNote\<close> against the primary candidate \<open>/notes\<close> fails, the
  requests made are the primary one and then the alternate one against \<open>/api/notes\<close>,
  which is made exactly once; if the alternate fails too, the error thrown is the
  alternate's, and if it returns, its value is the result.
\<close>

theorem createNote_fallback:
  assumes "req (createRequest n ''/notes'') = Inl e1"
  shows "snd (createNote req n) = [createRequest n ''/notes'', createRequest n ''/api/notes'']
       \<and> count_list (snd (createNote req n)) (createRequest n ''/api/notes'') = 1
       \<and> (\<forall>e2. req (createRequest n ''/api/notes'') = Inl e2
             \<longrightarrow> fst (createNote req n) = Inl (Some e2))
       \<and> (\<forall>d. req (createRequest n ''/api/notes'') = Inr d
             \<longrightarrow> fst (createNote req n) = Inr d)"
proof -
  have "createNote req n =
      (case req (createRequest n ''/api/notes'') of
         Inr d \<Rightarrow> (Inr d, [createRequest n ''/notes'', createRequest n ''/api/notes''])
       | Inl e2 \<Rightarrow> (Inl (Some e2), [createRequest n ''/notes'', createRequest n ''/api/notes'']))"
    using assms unfolding createNote_def NOTES_BASE_CANDIDATES_def loop_two by simp
  then show ?thesis
    using createRequest_distinct [of n] by (auto split: sum.splits)
qed

theorem createNote_fallback_witness:
  "(\<lambda>r. if path r = ''/notes'' then Inl (JsError ''Request failed (404)'' (Some 404))
         else Inl (JsError ''Request failed (500)'' (Some 500)))
     (createRequest (JObj [(''title'', JStr ''Untitled''), (''content'', JStr [])]) ''/notes'')
     = (Inl (JsError ''Request failed (404)'' (Some 404)) :: js_error + jsval)
   \<and> createNote (\<lambda>r. if path r = ''/notes'' then Inl (JsError ''Request failed (404)'' (Some 404))
                      else Inl (JsError ''Request failed (500)'' (Some 500)))
       (JObj [(''title'', JStr ''Untitled''), (''content'', JStr [])])
     = (Inl (Some (JsError ''Request failed (500)'' (Some 500))),
        [\<lparr>http_method = ''POST'', path = ''/notes'',
           body = Some (JObj [(''title'', JStr ''Untitled''), (''content'', JStr [])])\<rparr>,
         \<lparr>http_method = ''POST'', path = ''/api/notes'',
           body = Some (JObj [(''title'', JStr ''Untitled''), (''content'', JStr [])])\<rparr>])"
proof -
  let ?req = "\<lambda>r. if path r = ''/notes'' then Inl (JsError ''Request failed (404)'' (Some 404))
         else Inl (JsError ''Request failed (500)'' (Some 500)) :: js_error + jsval"
  let ?n = "JObj [(''title'', JStr ''Untitled''), (''content'', JStr [])]"
  have h: "?req (createRequest ?n ''/notes'') = Inl (JsError ''Request failed (404)'' (Some 404))"
    by (simp add: createRequest_def)
  have "fst (createNote ?req ?n) = Inl (Some (JsError ''Request failed (500)'' (Some 500)))"
    and "snd (createNote ?req ?n) = [createRequest ?n ''/notes'', createRequest ?n ''/api/notes'']"
    using h createNote_fallback [of ?req ?n "JsError ''Request failed (404)'' (Some 404)"]
    by (simp_all add: createRequest_def)
  then have "createNote ?req ?n = (Inl (Some (JsError ''Request failed (500)'' (Some 500))),
      [createRequest ?n ''/notes'', createRequest ?n ''/api/notes''])"
    by (simp add: prod_eq_iff)
  with h show ?thesis by (simp add: createRequest_def)
qed









subsection \<open>Save and delete\<close>

lemma selectedNote_Some:
  "selectedNote st = Some sel \<Longrightarrow> sel \<in> set (notes st) \<and> jsString (id_n sel) = jsString (selectedId st)"
  by (auto simp: selectedNote_def find_Some_iff)

lemma spreadNote_right: "spreadNote n normalized = normalized"
  by (cases n, cases normalized) (simp add: spreadNote_def)

lemma isDirty_selectionEffect: "\<not> isDirty (selectionEffect st)"
  by (simp add: selectionEffect_def Let_def split: option.splits)

lemma onSave_failed:
  assumes "selectedNote st = Some sel" "truthy (id_n sel)" "savePayload st = Inr payload"
    and "fst (updateNote req (id_n sel) payload) = Inl e"
  shows "onSave req st = st\<lparr>error := errMessage e ''Failed to save note.'', info := [], isSaving := False\<rparr>"
  using assms by (simp add: onSave_def)

text \<open>
  C3: when a note with a truthy id is selected, the payload was built and the update call
  fails (the requests of both candidates threw), \<open>onSave\<close> changes the error message,
  the info message and the saving flag only: a dirty flag that was true is still true,
  and the collection is the one before the call.
\<close>

theorem save_failure_keeps_state:
  assumes "isDirty st"
    and "selectedNote st = Some sel" "truthy (id_n sel)" "savePayload st = Inr payload"
    and "fst (updateNote req (id_n sel) payload) = Inl e"
  shows "isDirty (onSave req st)
       \<and> notes (onSave req st) = notes st
       \<and> onSave req st
           = st\<lparr>error := errMessage e ''Failed to save note.'', info := [], isSaving := False\<rparr>"
  using assms by (simp add: onSave_failed)

lemma onSave_merged:
  assumes "selectedNote st = Some sel" "truthy (id_n sel)" "savePayload st = Inr payload"
    and "fst (updateNote req (id_n sel) payload) = Inr updated"
    and "\<not> nullish (id_n (normalizeNote (js_or updated (JObj []))))"
  shows "onSave req st =
     st\<lparr>notes := map (\<lambda>n. if jsString (id_n n) = jsString (id_n (normalizeNote (js_or updated (JObj []))))
                           then spreadNote n (normalizeNote (js_or updated (JObj []))) else n) (notes st),
        error := [], info := ''Saved.'', isSaving := False, isDirty := False\<rparr>"
  using assms by (simp add: onSave_def Let_def)

text \<open>
  C4: when the update call returns and its response normalizes to a note with an id
  that is not null, \<open>onSave\<close> keeps the length and order of the collection; every
  entry whose id has the string form of the normalized id becomes the spread of that
  entry and the normalized response (which is the normalized response, since it has all
  five properties), every other entry is unchanged; the dirty flag is false, also
  after the effect that reloads the selection.
\<close>

theorem save_success_merges:
  assumes "selectedNote st = Some sel" "truthy (id_n sel)" "savePayload st = Inr payload"
    and "fst (updateNote req (id_n sel) payload) = Inr updated"
    and "normalized = normalizeNote (js_or updated (JObj []))"
    and "\<not> nullish (id_n normalized)"
  shows "length (notes (onSave req st)) = length (notes st)
       \<and> (\<forall>k < length (notes st).
             notes (onSave req st) ! k =
               (if jsString (id_n (notes st ! k)) = jsString (id_n normalized)
                then spreadNote (notes st ! k) normalized else notes st ! k))
       \<and> (\<forall>n. spreadNote n normalized = normalized)
       \<and> \<not> isDirty (onSave req st)
       \<and> \<not> isDirty (selectionEffect (onSave req st))"
proof -
  have "onSave req st =
     st\<lparr>notes := map (\<lambda>n. if jsString (id_n n) = jsString (id_n normalized)
                           then spreadNote n normalized else n) (notes st),
        error := [], info := ''Saved.'', isSaving := False, isDirty := False\<rparr>"
    using assms onSave_merged [of st sel payload req updated] by simp
  then show ?thesis
    by (simp add: spreadNote_right isDirty_selectionEffect)
qed

lemma firstId_identified:
  "\<forall>n \<in> set ns. \<not> nullish (id_n n) \<Longrightarrow> firstId ns = (case ns of [] \<Rightarrow> JNull | n # _ \<Rightarrow> id_n n)"
  by (cases ns) (simp_all add: firstId_def coalesce_def)

lemma onDelete_done:
  assumes "selectedNote st = Some sel" "truthy (id_n sel)"
    and "fst (deleteNote req (id_n sel)) = Inr r"
  shows "onDelete req True st =
     st\<lparr>notes := filter (\<lambda>n. jsString (id_n n) \<noteq> jsString (id_n sel)) (notes st),
        selectedId := firstId (filter (\<lambda>n. jsString (id_n n) \<noteq> jsString (id_n sel)) (notes st)),
        error := [], info := ''Deleted.'', isDeleting := False, isDirty := False\<rparr>"
  using assms selectedNote_Some [of st sel] by (simp add: onDelete_def Let_def)

text \<open>
  C5: when the selected note has a truthy id, the deletion is confirmed and the delete
  call returns, \<open>onDelete\<close> leaves in the collection the notes whose id differs (in
  string form) from the selected note's, in their order; the selected note is gone; the
  selection is \<open>remaining[0]?.id ?? null\<close>, which is the id of the first of them (the ids
  of a collection are not null), or \<open>null\<close> if none is left; the dirty flag is false,
  also after the effect that reloads the selection.
\<close>

theorem delete_selected:
  assumes "selectedNote st = Some sel" "truthy (id_n sel)"
    and "fst (deleteNote req (id_n sel)) = Inr r"
  shows "notes (onDelete req True st) = filter (\<lambda>n. jsString (id_n n) \<noteq> jsString (id_n sel)) (notes st)
       \<and> sel \<notin> set (notes (onDelete req True st))
       \<and> selectedId (onDelete req True st) =
            (case notes (onDelete req True st) of [] \<Rightarrow> JNull | n # _ \<Rightarrow> coalesce (id_n n) JNull)
       \<and> ((\<forall>n \<in> set (notes st). \<not> nullish (id_n n)) \<longrightarrow>
            selectedId (onDelete req True st) =
              (case notes (onDelete req True st) of [] \<Rightarrow> JNull | n # _ \<Rightarrow> id_n n))
       \<and> \<not> isDirty (onDelete req True st)
       \<and> \<not> isDirty (selectionEffect (onDelete req True st))"
proof -
  let ?rest = "filter (\<lambda>n. jsString (id_n n) \<noteq> jsString (id_n sel)) (notes st)"
  have st': "onDelete req True st =
     st\<lparr>notes := ?rest, selectedId := firstId ?rest,
        error := [], info := ''Deleted.'', isDeleting := False, isDirty := False\<rparr>"
    using assms by (rule onDelete_done)
  have "firstId ?rest = (case ?rest of [] \<Rightarrow> JNull | n # _ \<Rightarrow> id_n n)"
    if "\<forall>n \<in> set (notes st). \<not> nullish (id_n n)"
    using that by (intro firstId_identified) simp
  then show ?thesis
    unfolding st' by (simp add: firstId_def isDirty_selectionEffect)
qed

lemma ids_differ: "jsString (JNum 2) \<noteq> jsString (JNum 1)"
  by (simp add: showInt_def dec.simps)

lemma selectedNote_editingA: "selectedNote editingA = Some noteA"
  by (simp add: selectedNote_def editingA_def noteA_def)

lemma savePayload_editingA:
  "savePayload editingA = Inr (JObj [(''title'', JStr ''A2''), (''content'', JStr ''draft'')])"
  by (simp add: savePayload_def editingA_def trim_def trimStart_def trimEnd_def ws1_def ws2_def ws3_def js_or_def)

theorem save_failure_keeps_state_witness:
  "isDirty editingA \<and> selectedNote editingA = Some noteA \<and> truthy (id_n noteA)
   \<and> savePayload editingA = Inr (JObj [(''title'', JStr ''A2''), (''content'', JStr ''draft'')])
   \<and> fst (updateNote (\<lambda>r. Inl (JsError ''Request failed (500)'' (Some 500))) (id_n noteA)
           (JObj [(''title'', JStr ''A2''), (''content'', JStr ''draft'')]))
       = Inl (Some (JsError ''Request failed (500)'' (Some 500)))
   \<and> onSave (\<lambda>r. Inl (JsError ''Request failed (500)'' (Some 500))) editingA
       = editingA\<lparr>error := ''Request failed (500)''\<rparr>"
proof -
  let ?req = "\<lambda>r :: http_request. Inl (JsError ''Request failed (500)'' (Some 500)) :: js_error + jsval"
  have d: "isDirty editingA" by (simp add: editingA_def)
  have t: "truthy (id_n noteA)" by (simp add: noteA_def)
  have u: "fst (updateNote ?req (id_n noteA) (JObj [(''title'', JStr ''A2''), (''content'', JStr ''draft'')]))
             = Inl (Some (JsError ''Request failed (500)'' (Some 500)))"
    by (simp add: updateNote_def NOTES_BASE_CANDIDATES_def)
  show ?thesis
    using save_failure_keeps_state [OF d selectedNote_editingA t savePayload_editingA u] d t u
    by (simp add: selectedNote_editingA savePayload_editingA errMessage_def) (simp add: editingA_def)
qed

theorem save_success_merges_witness:
  "selectedNote editingA = Some noteA \<and> truthy (id_n noteA)
   \<and> savePayload editingA = Inr (JObj [(''title'', JStr ''A2''), (''content'', JStr ''draft'')])
   \<and> notes (onSave (\<lambda>r. Inr (JObj [(''id'', JStr ''1''), (''title'', JStr ''A2''), (''content'', JStr ''draft''),
                                       (''updated_at'', JStr ''2024-02-01'')])) editingA)
       = [\<lparr>id_n = JStr ''1'', title = JStr ''A2'', content = JStr ''draft'', createdAt = JNull,
            updatedAt = JStr ''2024-02-01''\<rparr>, noteB]
   \<and> \<not> isDirty (onSave (\<lambda>r. Inr (JObj [(''id'', JStr ''1''), (''title'', JStr ''A2''), (''content'', JStr ''draft''),
                                       (''updated_at'', JStr ''2024-02-01'')])) editingA)"
proof -
  let ?resp = "JObj [(''id'', JStr ''1''), (''title'', JStr ''A2''), (''content'', JStr ''draft''),
                     (''updated_at'', JStr ''2024-02-01'')]"
  let ?req = "\<lambda>r :: http_request. Inr ?resp :: js_error + jsval"
  let ?norm = "\<lparr>id_n = JStr ''1'', title = JStr ''A2'', content = JStr ''draft'', createdAt = JNull,
            updatedAt = JStr ''2024-02-01''\<rparr>"
  have t: "truthy (id_n noteA)" by (simp add: noteA_def)
  have u: "fst (updateNote ?req (id_n noteA) (JObj [(''title'', JStr ''A2''), (''content'', JStr ''draft'')]))
             = Inr ?resp"
    by (simp add: updateNote_def NOTES_BASE_CANDIDATES_def)
  have n: "?norm = normalizeNote (js_or ?resp (JObj []))"
    by (simp add: normalizeNote_def js_or_def coalesce_def)
  have i: "\<not> nullish (id_n ?norm)" by simp
  have one: "jsString (JNum 1) = ''1''" by (simp add: showInt_def dec.simps)
  have two: "jsString (JNum 2) \<noteq> ''1''" by (simp add: showInt_def dec.simps)
  have l: "notes editingA = [noteA, noteB]" by (simp add: editingA_def)
  from save_success_merges [OF selectedNote_editingA t savePayload_editingA u n i]
  have len: "length (notes (onSave ?req editingA)) = 2"
    and nth: "\<forall>k<2. notes (onSave ?req editingA) ! k =
               (if jsString (id_n ([noteA, noteB] ! k)) = ''1''
                then spreadNote ([noteA, noteB] ! k) ?norm else [noteA, noteB] ! k)"
    and sp: "\<forall>n. spreadNote n ?norm = ?norm"
    and nd: "\<not> isDirty (onSave ?req editingA)"
    by (simp_all add: l)
  from nth have "notes (onSave ?req editingA) ! 0 = ?norm" "notes (onSave ?req editingA) ! 1 = noteB"
    using sp one two by (simp_all add: noteA_def noteB_def)
  with len have "notes (onSave ?req editingA) = [?norm, noteB]"
    by (simp add: list_eq_iff_nth_eq less_Suc_eq numeral_2_eq_2)
  with nd t show ?thesis
    by (simp add: selectedNote_editingA savePayload_editingA)
qed

theorem delete_selected_witness:
  "selectedNote editingA = Some noteA \<and> truthy (id_n noteA)
   \<and> fst (deleteNote (\<lambda>r. Inr JNull) (id_n noteA)) = Inr JNull
   \<and> notes (onDelete (\<lambda>r. Inr JNull) True editingA) = [noteB]
   \<and> selectedId (onDelete (\<lambda>r. Inr JNull) True editingA) = JNum 2
   \<and> \<not> isDirty (onDelete (\<lambda>r. Inr JNull) True editingA)"
proof -
  have t: "truthy (id_n noteA)" by (simp add: noteA_def)
  have d: "fst (deleteNote (\<lambda>r. Inr JNull) (id_n noteA)) = Inr JNull"
    by (simp add: deleteNote_def NOTES_BASE_CANDIDATES_def)
  have l: "filter (\<lambda>n. jsString (id_n n) \<noteq> jsString (id_n noteA)) (notes editingA) = [noteB]"
    using ids_differ by (simp add: editingA_def noteA_def noteB_def)
  show ?thesis
    using delete_selected [OF selectedNote_editingA t d] t d
    by (simp add: l selectedNote_editingA) (simp add: noteB_def coalesce_def)
qed


subsection \<open>The sorted view\<close>

lemma set_insertBy: "set (insertBy cmp x ys) = insert x (set ys)"
  by (induction ys) auto

lemma mset_insertBy: "mset (insertBy cmp x ys) = add_mset x (mset ys)"
  by (induction ys) auto

lemma mset_sortBy: "mset (sortBy cmp xs) = mset xs"
  by (induction xs) (auto simp: mset_insertBy)

lemma set_sortBy: "set (sortBy cmp xs) = set xs"
  by (induction xs) (auto simp: set_insertBy)

lemma sortCompare_compareNotes:
  "noteTime p a = Some at \<Longrightarrow> noteTime p b = Some bt \<Longrightarrow>
     sortCompare (compareNotes p l) a b \<le> 0 \<longleftrightarrow> comparedBy (noteTime p) l a b"
  by (auto simp: sortCompare_def compareNotes_def comparedBy_def)

lemma comparedBy_total:
  assumes "\<forall>s t. l s t \<le> 0 \<or> l t s \<le> 0"
    and "time a = Some at" "time b = Some bt"
  shows "comparedBy time l a b \<or> comparedBy time l b a"
  using assms by (auto simp: comparedBy_def)

lemma comparedBy_Some:
  "comparedBy time l a b \<longleftrightarrow>
     (\<exists>at bt. time a = Some at \<and> time b = Some bt
        \<and> (bt < at \<or> (bt = at \<and> l (titleKey a) (titleKey b) \<le> 0)))"
  by (cases "time a"; cases "time b") (simp_all add: comparedBy_def)

lemma comparedBy_trans:
  assumes tr: "\<forall>s t u. l s t \<le> 0 \<and> l t u \<le> 0 \<longrightarrow> l s u \<le> 0"
    and ab: "comparedBy time l a b" and bc: "comparedBy time l b c"
  shows "comparedBy time l a c"
proof -
  from ab obtain at bt where a: "time a = Some at" and b: "time b = Some bt"
    and 1: "bt < at \<or> (bt = at \<and> l (titleKey a) (titleKey b) \<le> 0)"
    unfolding comparedBy_Some by blast
  from bc b obtain ct where c: "time c = Some ct"
    and 2: "ct < bt \<or> (ct = bt \<and> l (titleKey b) (titleKey c) \<le> 0)"
    unfolding comparedBy_Some by auto
  have "ct < at \<or> (ct = at \<and> l (titleKey a) (titleKey c) \<le> 0)"
  proof (cases "ct < at")
    case True
    then show ?thesis by simp
  next
    case False
    with 1 2 have eq: "bt = at" "ct = bt"
      and le: "l (titleKey a) (titleKey b) \<le> 0" "l (titleKey b) (titleKey c) \<le> 0"
      by auto
    from tr le have "l (titleKey a) (titleKey c) \<le> 0" by blast
    with eq show ?thesis by simp
  qed
  with a c show ?thesis unfolding comparedBy_Some by simp
qed

lemma sorted_insertBy:
  assumes tot: "\<forall>s t. l s t \<le> 0 \<or> l t s \<le> 0"
    and tr: "\<forall>s t u. l s t \<le> 0 \<and> l t u \<le> 0 \<longrightarrow> l s u \<le> 0"
    and x: "noteTime p x \<noteq> None"
    and ys: "\<forall>y \<in> set ys. noteTime p y \<noteq> None"
    and srt: "sorted_wrt (comparedBy (noteTime p) l) ys"
  shows "sorted_wrt (comparedBy (noteTime p) l) (insertBy (compareNotes p l) x ys)"
  using ys srt
proof (induction ys)
  case Nil
  show ?case by simp
next
  case (Cons y ys)
  from x obtain xt where xt: "noteTime p x = Some xt" by auto
  from Cons.prems obtain yt where yt: "noteTime p y = Some yt" by auto
  have tail: "sorted_wrt (comparedBy (noteTime p) l) (insertBy (compareNotes p l) x ys)"
    using Cons by simp
  have y_le: "\<forall>z \<in> set ys. comparedBy (noteTime p) l y z"
    using Cons.prems by simp
  show ?case
  proof (cases "sortCompare (compareNotes p l) x y \<le> 0")
    case True
    then have xy: "comparedBy (noteTime p) l x y"
      using sortCompare_compareNotes [OF xt yt] by simp
    have "\<forall>z \<in> set ys. comparedBy (noteTime p) l x z"
      using comparedBy_trans [OF tr xy] y_le by blast
    with True xy Cons.prems show ?thesis by simp
  next
    case False
    then have "\<not> comparedBy (noteTime p) l x y"
      using sortCompare_compareNotes [OF xt yt] by simp
    then have yx: "comparedBy (noteTime p) l y x"
      using comparedBy_total [OF tot xt yt] by blast
    with False tail y_le show ?thesis by (simp add: set_insertBy)
  qed
qed

lemma sorted_sortBy:
  assumes tot: "\<forall>s t. l s t \<le> 0 \<or> l t s \<le> 0"
    and tr: "\<forall>s t u. l s t \<le> 0 \<and> l t u \<le> 0 \<longrightarrow> l s u \<le> 0"
    and xs: "\<forall>n \<in> set xs. noteTime p n \<noteq> None"
  shows "sorted_wrt (comparedBy (noteTime p) l) (sortBy (compareNotes p l) xs)"
  using xs
proof (induction xs)
  case Nil
  show ?case by simp
next
  case (Cons x xs)
  have "sorted_wrt (comparedBy (noteTime p) l) (insertBy (compareNotes p l) x (sortBy (compareNotes p l) xs))"
  proof (rule sorted_insertBy [OF tot tr])
    show "noteTime p x \<noteq> None" using Cons.prems by simp
    show "\<forall>y \<in> set (sortBy (compareNotes p l) xs). noteTime p y \<noteq> None"
      using Cons.prems by (simp add: set_sortBy)
    show "sorted_wrt (comparedBy (noteTime p) l) (sortBy (compareNotes p l) xs)"
      using Cons by simp
  qed
  then show ?case by simp
qed

lemma truthy_not_nullish: "truthy v \<Longrightarrow> \<not> nullish v"
  by (cases v) simp_all

lemma nullish_not_truthy: "nullish v \<Longrightarrow> \<not> truthy v"
  by (cases v) simp_all

lemma or_eq_coalesce:
  "nullish a \<or> truthy a \<Longrightarrow> js_or a b = coalesce a b"
  by (auto simp: js_or_def coalesce_def truthy_not_nullish nullish_not_truthy)

lemma noteTime_eq_specTime:
  "stampsTruthyOrAbsent a \<Longrightarrow> noteTime p a = specTime p a"
  by (simp add: stampsTruthyOrAbsent_def noteTime_def specTime_def specEffective_def or_eq_coalesce)

lemma localeCompare_le: "localeCompare s t \<le> 0 \<longleftrightarrow> foldCase s \<le> foldCase t"
  by (auto simp: localeCompare_def)

lemma localeCompare_total: "\<forall>s t. localeCompare s t \<le> 0 \<or> localeCompare t s \<le> 0"
  unfolding localeCompare_le by (simp add: linear)

lemma localeCompare_trans:
  "\<forall>s t u. localeCompare s t \<le> 0 \<and> localeCompare t u \<le> 0 \<longrightarrow> localeCompare s u \<le> 0"
  unfolding localeCompare_le by (meson order_trans)

lemma comparedBy_localeCompare: "comparedBy time localeCompare a b = orderedBy time a b"
  by (cases "time a"; cases "time b") (simp_all add: comparedBy_def orderedBy_def localeCompare_le)

lemma orderedBy_cong:
  "t1 a = t2 a \<Longrightarrow> t1 b = t2 b \<Longrightarrow> orderedBy t1 a b = orderedBy t2 a b"
  by (simp add: orderedBy_def)

text \<open>
  C1, amended: for a collection in which the time of every note is a valid date, the
  view is a permutation of the collection in descending order of the time read from
  the first truthy value of \<open>updatedAt\<close>, \<open>createdAt\<close> and 0, notes of equal time being in
  ascending case-insensitive order of their titles; when no timestamp is present and
  falsy, that time is the one of \<open>updatedAt\<close> if present, else \<open>createdAt\<close>, else epoch
  zero.
\<close>

theorem sortedNotes_ordered:
  assumes "\<forall>n \<in> set ns. noteTime parseDate n \<noteq> None"
  shows "mset (sortedNotes parseDate localeCompare ns) = mset ns
       \<and> sorted_wrt (orderedBy (noteTime parseDate)) (sortedNotes parseDate localeCompare ns)
       \<and> ((\<forall>n \<in> set ns. stampsTruthyOrAbsent n) \<longrightarrow>
            sorted_wrt (orderedBy (specTime parseDate)) (sortedNotes parseDate localeCompare ns))"
proof -
  let ?view = "sortedNotes parseDate localeCompare ns"
  have "sorted_wrt (comparedBy (noteTime parseDate) localeCompare) ?view"
    unfolding sortedNotes_def by (rule sorted_sortBy [OF localeCompare_total localeCompare_trans assms])
  then have srt: "sorted_wrt (orderedBy (noteTime parseDate)) ?view"
    by (simp add: comparedBy_localeCompare [abs_def])
  have elems: "set ?view = set ns"
    by (simp add: sortedNotes_def set_sortBy)
  have "sorted_wrt (orderedBy (specTime parseDate)) ?view"
    if ok: "\<forall>n \<in> set ns. stampsTruthyOrAbsent n"
  proof (rule sorted_wrt_mono_rel [OF _ srt])
    fix a b
    assume "a \<in> set ?view" "b \<in> set ?view"
      and ab: "orderedBy (noteTime parseDate) a b"
    with ok elems have "noteTime parseDate a = specTime parseDate a" "noteTime parseDate b = specTime parseDate b"
      by (simp_all add: noteTime_eq_specTime)
    with ab show "orderedBy (specTime parseDate) a b"
      by (simp add: orderedBy_cong [of "noteTime parseDate" a "specTime parseDate" b])
  qed
  with srt show ?thesis
    by (simp add: sortedNotes_def mset_sortBy)
qed

lemma zeroUpdated_eq:
  "zeroUpdated = \<lparr>id_n = JNum 1, title = JStr ''a'', content = JStr [], createdAt = JNum 1000, updatedAt = JNum 0\<rparr>"
  by (simp add: zeroUpdated_def normalizeNote_def coalesce_def)

lemma laterUpdated_eq:
  "laterUpdated = \<lparr>id_n = JNum 2, title = JStr ''b'', content = JStr [], createdAt = JNull, updatedAt = JNum 500\<rparr>"
  by (simp add: laterUpdated_def normalizeNote_def coalesce_def)

text \<open>
  Whatever \<open>Date.parse\<close> and \<open>localeCompare\<close> are, the note with \<open>updatedAt: 0\<close> and
  \<open>createdAt: 1000\<close> is placed before the note with \<open>updatedAt: 500\<close>: both times are read
  from numbers, and they differ.
\<close>

lemma zero_updatedAt_first:
  "sortedNotes parseDate collate [laterUpdated, zeroUpdated] = [zeroUpdated, laterUpdated]"
proof -
  have tz: "noteTime parseDate zeroUpdated = Some 1000" and tl: "noteTime parseDate laterUpdated = Some 500"
    by (simp_all add: noteTime_def zeroUpdated_eq laterUpdated_eq js_or_def timeClip_def)
  have "sortCompare (compareNotes parseDate collate) laterUpdated zeroUpdated = 500"
    by (simp add: sortCompare_def compareNotes_def tz tl)
  then show ?thesis
    by (simp add: sortedNotes_def)
qed

text \<open>
  Two notes with the same \<open>updatedAt\<close> that is no date keep their place in the collection,
  whatever the collation: the comparator returns NaN for them.
\<close>

lemma undatedB_eq:
  "undatedB = \<lparr>id_n = JNum 6, title = JStr ''b'', content = JStr [], createdAt = JNull, updatedAt = JStr ''n/a''\<rparr>"
  by (simp add: undatedB_def normalizeNote_def coalesce_def)

lemma undatedA_eq:
  "undatedA = \<lparr>id_n = JNum 7, title = JStr ''a'', content = JStr [], createdAt = JNull, updatedAt = JStr ''n/a''\<rparr>"
  by (simp add: undatedA_def normalizeNote_def coalesce_def)

lemma undated_kept:
  "sortedNotes noDates collate [undatedB, undatedA] = [undatedB, undatedA]"
proof -
  have "noteTime noDates undatedB = None"
    by (simp add: noteTime_def undatedB_eq js_or_def noDates_def)
  then have "sortCompare (compareNotes noDates collate) undatedB undatedA = 0"
    by (simp add: sortCompare_def compareNotes_def)
  then show ?thesis
    by (simp add: sortedNotes_def)
qed

lemma a_before_b: "localeCompare ''a'' ''b'' = - 1"
  unfolding localeCompare_def foldCase_def by code_simp

text \<open>
  C1, as the claim states it, fails twice. The view reads the timestamp with \<open>||\<close>, so an
  \<open>updatedAt\<close> that is present and falsy is skipped: the note with \<open>updatedAt: 0\<close> and
  \<open>createdAt: 1000\<close> has the effective timestamp 0 of the claim, but is placed before the
  note with \<open>updatedAt: 500\<close>. And two notes whose effective timestamp is the same
  string that is no date are left in the order of the collection, title \<open>b\<close> before
  title \<open>a\<close>.
\<close>

theorem sortedNotes_not_as_stated:
  "sortedNotes noDates localeCompare [laterUpdated, zeroUpdated] = [zeroUpdated, laterUpdated]
   \<and> specTime noDates zeroUpdated = Some 0
   \<and> specTime noDates laterUpdated = Some 500
   \<and> \<not> sorted_wrt (orderedBy (specTime noDates)) (sortedNotes noDates localeCompare [laterUpdated, zeroUpdated])
   \<and> specEffective undatedB = specEffective undatedA
   \<and> noteTime noDates undatedB = None
   \<and> sortedNotes noDates localeCompare [undatedB, undatedA] = [undatedB, undatedA]
   \<and> localeCompare (titleKey undatedA) (titleKey undatedB) = - 1"
proof -
  have sz: "specTime noDates zeroUpdated = Some 0" and sl: "specTime noDates laterUpdated = Some 500"
    by (simp_all add: specTime_def specEffective_def zeroUpdated_eq laterUpdated_eq coalesce_def timeClip_def)
  have e: "specEffective undatedB = specEffective undatedA"
    by (simp add: specEffective_def undatedB_eq undatedA_eq)
  have n: "noteTime noDates undatedB = None"
    by (simp add: noteTime_def undatedB_eq js_or_def noDates_def)
  have k: "titleKey undatedA = ''a''" "titleKey undatedB = ''b''"
    by (simp_all add: titleKey_def undatedA_eq undatedB_eq js_or_def)
  show ?thesis
    unfolding zero_updatedAt_first undated_kept k a_before_b
    by (simp add: sz sl e n orderedBy_def)
qed


text \<open>
  Three notes: the two of time 900 are placed after the one of time 2000, title \<open>a\<close>
  before title \<open>B\<close>.
\<close>

theorem sortedNotes_ordered_witness:
  "noteTime noDates noteC = Some 900 \<and> noteTime noDates noteD = Some 900
   \<and> noteTime noDates noteE = Some 2000
   \<and> mset (sortedNotes noDates localeCompare [noteC, noteD, noteE]) = mset [noteC, noteD, noteE]
   \<and> sorted_wrt (orderedBy (noteTime noDates)) (sortedNotes noDates localeCompare [noteC, noteD, noteE])
   \<and> stampsTruthyOrAbsent noteC \<and> stampsTruthyOrAbsent noteD \<and> stampsTruthyOrAbsent noteE
   \<and> sorted_wrt (orderedBy (specTime noDates)) (sortedNotes noDates localeCompare [noteC, noteD, noteE])
   \<and> sortedNotes noDates localeCompare [noteC, noteD, noteE] = [noteE, noteD, noteC]"
proof -
  have ok: "stampsTruthyOrAbsent noteC" "stampsTruthyOrAbsent noteD" "stampsTruthyOrAbsent noteE"
    by (simp_all add: stampsTruthyOrAbsent_def noteC_def noteD_def noteE_def)
  have t: "noteTime noDates noteC = Some 900" "noteTime noDates noteD = Some 900"
    "noteTime noDates noteE = Some 2000"
    by (simp_all add: noteTime_def noteC_def noteD_def noteE_def js_or_def timeClip_def)
  have k: "titleKey noteC = ''B''" "titleKey noteD = ''a''" "titleKey noteE = ''C''"
    by (simp_all add: titleKey_def noteC_def noteD_def noteE_def js_or_def)
  have b: "localeCompare ''B'' ''a'' = 1"
    unfolding localeCompare_def foldCase_def by code_simp
  have c: "sortCompare (compareNotes noDates localeCompare) noteD noteE = 1100"
    "sortCompare (compareNotes noDates localeCompare) noteC noteE = 1100"
    "sortCompare (compareNotes noDates localeCompare) noteC noteD = 1"
    by (simp_all add: sortCompare_def compareNotes_def t k b)
  have v: "sortedNotes noDates localeCompare [noteC, noteD, noteE] = [noteE, noteD, noteC]"
    by (simp add: sortedNotes_def c)
  have valid: "\<forall>n \<in> set [noteC, noteD, noteE]. noteTime noDates n \<noteq> None"
    by (simp add: t)
  show ?thesis
    using sortedNotes_ordered [OF valid] t v ok by simp
qed


end
